theory Spec2Isabelle
  imports Complex_Main "HOL-Library.Sublist"
begin

section \<open>Orthomosaic pipeline: embedding of main.py, handlers.py and config.py\<close>

text \<open>
  The pipeline of \<^verbatim>\<open>main.processar_projeto\<close> calls the handlers of
  \<^verbatim>\<open>handlers.py\<close> one after the other. Each handler talks to an external service
  (Supabase table and buckets, the WebODM node, the webhook endpoint, the local file
  system) inside a \<^verbatim>\<open>try/except Exception\<close> block.

  The embedding separates
  \<^item> \<open>env\<close>: what the external services answer. Every call of a library or service is
    looked up here, keyed by the arguments of the call; \<open>Some e\<close> (or \<open>Inl e\<close>) means
    that the call raises an exception with text \<open>e\<close>;
  \<^item> \<open>state\<close>: what the program changes: the process-wide preset of \<^verbatim>\<open>config.py\<close>, the
    rows of table \<^verbatim>\<open>requisicoes\<close>, the update requests sent to the table, the
    upload requests sent to the buckets, the task creations sent to the node, the
    parameters written to the metadata file, the webhook bodies posted, the warnings
    and errors logged,
    and the list of handler calls made so far (\<open>trace\<close>, kept only to state ordering
    properties).
\<close>

subsection \<open>Python values and helpers\<close>

type_synonym exn = string

text \<open>Values found in a preset dictionary of \<^verbatim>\<open>settings.py\<close>. A Python float is
  represented by the real number it denotes.\<close>

datatype pyval = PStr string | PInt int | PFloat real | PBool bool | PList "string list"

text \<open>\<^verbatim>\<open>isinstance(valor, (str, int, float, bool))\<close>\<close>

fun is_scalar :: "pyval \<Rightarrow> bool" where
  "is_scalar (PList _) = False"
| "is_scalar _ = True"

text \<open>\<^verbatim>\<open>str.lower()\<close> on the ASCII letters (strings are byte strings here; other bytes
  stay as they are).\<close>

definition lower_char :: "char \<Rightarrow> char" where
  "lower_char c =
     (case map_of (zip ''ABCDEFGHIJKLMNOPQRSTUVWXYZ'' ''abcdefghijklmnopqrstuvwxyz'') c of
        None \<Rightarrow> c
      | Some l \<Rightarrow> l)"

definition lower :: "string \<Rightarrow> string" where
  "lower s = map lower_char s"

definition endswith :: "string \<Rightarrow> string \<Rightarrow> bool" where
  "endswith s e = (length e \<le> length s \<and> drop (length s - length e) s = e)"

definition startswith :: "string \<Rightarrow> string \<Rightarrow> bool" where
  "startswith s p = (take (length p) s = p)"

text \<open>\<^verbatim>\<open>x in s\<close> for two strings: \<open>x\<close> occurs in \<open>s\<close> as a substring.\<close>

fun substring :: "string \<Rightarrow> string \<Rightarrow> bool" where
  "substring x [] = (x = [])"
| "substring x (c # cs) = (startswith (c # cs) x \<or> substring x cs)"

text \<open>\<^verbatim>\<open>os.path.splitext(p)[1]\<close> (posixpath): the extension starts at the last dot of
  the last path component, unless only dots precede it there.\<close>

definition basename :: "string \<Rightarrow> string" where
  "basename p = rev (takeWhile (\<lambda>c. c \<noteq> CHR ''/'') (rev p))"

definition splitext_ext :: "string \<Rightarrow> string" where
  "splitext_ext p =
     (let b = basename p;
          ext = rev (takeWhile (\<lambda>c. c \<noteq> CHR ''.'') (rev b));
          stem = rev (drop 1 (dropWhile (\<lambda>c. c \<noteq> CHR ''.'') (rev b)))
      in if CHR ''.'' \<in> set b \<and> filter (\<lambda>c. c \<noteq> CHR ''.'') stem \<noteq> []
         then CHR ''.'' # ext else [])"

text \<open>\<^verbatim>\<open>os.path.join(a, b)\<close> (posixpath, two arguments).\<close>

definition path_join :: "string \<Rightarrow> string \<Rightarrow> string" where
  "path_join a b =
     (if startswith b ''/'' then b
      else if a = [] \<or> endswith a ''/'' then a @ b
      else a @ ''/'' @ b)"

text \<open>\<^verbatim>\<open>os.path.dirname(p)\<close> (posixpath).\<close>

definition dirname :: "string \<Rightarrow> string" where
  "dirname p =
     (let head = rev (dropWhile (\<lambda>c. c \<noteq> CHR ''/'') (rev p))
      in if head \<noteq> [] \<and> filter (\<lambda>c. c \<noteq> CHR ''/'') head \<noteq> []
         then rev (dropWhile (\<lambda>c. c = CHR ''/'') (rev head)) else head)"

text \<open>Truth value of an optional string (\<^verbatim>\<open>None\<close> and \<^verbatim>\<open>""\<close> are false).\<close>

fun truthy :: "string option \<Rightarrow> bool" where
  "truthy None = False"
| "truthy (Some s) = (s \<noteq> [])"

subsection \<open>Environment, state and events\<close>

datatype task = Task (uuid: string)

text \<open>One entry per handler call of \<^verbatim>\<open>processar_projeto\<close>, with the arguments that
  matter for ordering; a ledger update also records what it returned.\<close>

datatype event =
    Baixar_imagens_projeto string
  | Atualizar_registro_requisicao string "string option" "string option" "string option" bool
  | Enviar_webhook string string "string option" "string option"
  | Processar_imagens_webodm string string
  | Aguardar_processamento task
  | Baixar_resultados task string
  | Gerar_metadados string
  | Enviar_ortomosaico_para_bucket string string
  | Enviar_metadados_para_bucket string string
  | Limpar_arquivos_temporarios string

record env =
  TEMP_DIR :: string
  WEBHOOK_URL :: "string option"
  create_client :: "exn option"
  table_update :: "string \<Rightarrow> (string \<times> string) list \<Rightarrow> exn option"
  table_select_url :: "string \<Rightarrow> exn + string option"
  storage_list :: "string \<Rightarrow> exn + string list"
  storage_download :: "string \<Rightarrow> string \<Rightarrow> exn option"
  storage_upload :: "string \<Rightarrow> string \<Rightarrow> exn option"
  get_public_url :: "string \<Rightarrow> string \<Rightarrow> exn + string"
  makedirs :: "string \<Rightarrow> exn option"
  path_exists :: "string \<Rightarrow> bool"
  write_file :: "string \<Rightarrow> exn option"
  remove_file :: "string \<Rightarrow> exn option"
  copy2 :: "string \<Rightarrow> string \<Rightarrow> exn option"
  rmtree :: "string \<Rightarrow> exn option"
  listdir :: "string \<Rightarrow> exn + (string \<times> bool) list"
  node_connect :: "exn option"
  float_of_str :: "string \<Rightarrow> real option"
  create_task :: "string list \<Rightarrow> (string \<rightharpoonup> pyval) \<Rightarrow> exn + task"
  wait_for_completion :: "task \<Rightarrow> nat \<Rightarrow> nat \<Rightarrow> nat \<Rightarrow> exn option"
  task_info :: "task \<Rightarrow> exn + string"
  download_assets :: "task \<Rightarrow> string \<Rightarrow> exn option"
  now_iso :: string
  requests_post :: "string \<Rightarrow> (string \<times> string) list \<Rightarrow> exn + nat"

text \<open>A record of the log at level warning or error: the level, the file and the line
  of the \<^verbatim>\<open>config.logger\<close> call that writes it (the text of the message is not
  modelled; records at level info and the traceback records that follow some errors
  are left out).\<close>

datatype level = WARNING | ERROR

type_synonym log_record = "level \<times> string \<times> nat"

record state =
  ortomosaico_preset :: "string \<rightharpoonup> pyval"
  requisicoes :: "string \<rightharpoonup> (string \<rightharpoonup> string)"
  db_log :: "(string \<times> (string \<times> string) list) list"
  uploads :: "(string \<times> string) list"
  node_tasks :: "(string list \<times> (string \<rightharpoonup> pyval)) list"
  metadados :: "(string \<rightharpoonup> pyval) option"
  posted :: "(string \<times> string) list list"
  log :: "log_record list"
  trace :: "event list"

definition record_call :: "event \<Rightarrow> state \<Rightarrow> state" where
  "record_call e st = st\<lparr>trace := trace st @ [e]\<rparr>"

definition logger :: "level \<Rightarrow> string \<Rightarrow> nat \<Rightarrow> state \<Rightarrow> state" where
  "logger lvl file line st = st\<lparr>log := log st @ [(lvl, file, line)]\<rparr>"

subsection \<open>config.py\<close>

text \<open>\<^verbatim>\<open>get_project_temp_dir\<close>: the project's scratch directory, created on demand.\<close>

definition get_project_temp_dir :: "env \<Rightarrow> string \<Rightarrow> exn + string" where
  "get_project_temp_dir env id_projeto =
     (let project_dir = path_join (TEMP_DIR env) id_projeto
      in case makedirs env project_dir of Some e \<Rightarrow> Inl e | None \<Rightarrow> Inr project_dir)"

subsection \<open>handlers.py: the ledger (table requisicoes)\<close>

text \<open>\<^verbatim>\<open>get_supabase_client\<close>: logs and re-raises when the client cannot be created.\<close>

definition get_supabase_client :: "env \<Rightarrow> state \<Rightarrow> exn option \<times> state" where
  "get_supabase_client env st =
     (case create_client env of
        Some e \<Rightarrow> (Some e, logger ERROR ''handlers.py'' 22 st)
      | None \<Rightarrow> (None, st))"

text \<open>The dictionary \<^verbatim>\<open>data\<close> built by \<^verbatim>\<open>atualizar_registro_requisicao\<close>, in insertion
  order.\<close>

definition update_data ::
  "string option \<Rightarrow> string option \<Rightarrow> string option \<Rightarrow> (string \<times> string) list" where
  "update_data id_wl status_orto url_ortomosaico =
     (case id_wl of None \<Rightarrow> [] | Some v \<Rightarrow> [(''id_wl'', v)]) @
     (case status_orto of None \<Rightarrow> [] | Some v \<Rightarrow> [(''status_orto'', v)]) @
     (case url_ortomosaico of None \<Rightarrow> [] | Some v \<Rightarrow> [(''url_ortomosaico'', v)])"

text \<open>What the store does with \<^verbatim>\<open>table("requisicoes").update(data).eq("id", i)\<close> when it
  does not fail: the columns of \<open>data\<close> are overwritten in the row whose id is \<open>i\<close>, if
  there is one. (Supabase is an external service; this is its documented behaviour.)\<close>

definition apply_update ::
  "string \<Rightarrow> (string \<times> string) list \<Rightarrow> (string \<rightharpoonup> (string \<rightharpoonup> string)) \<Rightarrow>
   (string \<rightharpoonup> (string \<rightharpoonup> string))" where
  "apply_update i data rows =
     (case rows i of None \<Rightarrow> rows | Some row \<Rightarrow> rows(i \<mapsto> row ++ map_of data))"

definition atualizar_registro_requisicao ::
  "env \<Rightarrow> string \<Rightarrow> string option \<Rightarrow> string option \<Rightarrow> string option \<Rightarrow> state \<Rightarrow>
   bool \<times> state" where
  "atualizar_registro_requisicao env id_registro id_wl status_orto url_ortomosaico st =
     (let (r, st') =
        (case get_supabase_client env st of
           (Some e, st0) \<Rightarrow> (False, logger ERROR ''handlers.py'' 152 st0)
         | (None, st0) \<Rightarrow>
            (let data = update_data id_wl status_orto url_ortomosaico in
             if data \<noteq> [] then
               (let st1 = st0\<lparr>db_log := db_log st0 @ [(id_registro, data)]\<rparr> in
                case table_update env id_registro data of
                  Some e \<Rightarrow> (False, logger ERROR ''handlers.py'' 152 st1)
                | None \<Rightarrow>
                    (True, st1\<lparr>requisicoes := apply_update id_registro data (requisicoes st1)\<rparr>))
             else (False, logger WARNING ''handlers.py'' 148 st0)))
      in (r, record_call
               (Atualizar_registro_requisicao id_registro id_wl status_orto url_ortomosaico r)
               st'))"

subsection \<open>handlers.py: input images\<close>

text \<open>\<^verbatim>\<open>ext in supported_extensions\<close>: membership in a list, substring of a string, a
  \<^verbatim>\<open>TypeError\<close> for any other value.\<close>

fun py_in :: "string \<Rightarrow> pyval \<Rightarrow> exn + bool" where
  "py_in x (PList l) = Inr (x \<in> set l)"
| "py_in x (PStr s) = Inr (substring x s)"
| "py_in x v = Inl ''TypeError''"

definition supported_extensions :: "(string \<rightharpoonup> pyval) \<Rightarrow> pyval" where
  "supported_extensions preset =
     (case preset ''SUPPORTED_IMAGE_EXTENSIONS'' of
        None \<Rightarrow> PList [''.jpg'', ''.jpeg'', ''.tif'', ''.tiff'', ''.png'']
      | Some v \<Rightarrow> v)"

text \<open>The list comprehension \<^verbatim>\<open>valid_files\<close> over the names of the listing.\<close>

fun valid_files :: "pyval \<Rightarrow> string list \<Rightarrow> exn + string list" where
  "valid_files exts [] = Inr []"
| "valid_files exts (name # response) =
     (case py_in (lower (splitext_ext name)) exts of
        Inl e \<Rightarrow> Inl e
      | Inr b \<Rightarrow>
         (case valid_files exts response of
            Inl e \<Rightarrow> Inl e
          | Inr r \<Rightarrow> Inr (if b then name # r else r)))"

text \<open>The download loop: a file whose download or local write raises is logged and
  skipped; \<open>contador\<close> counts the others.\<close>

fun download_loop ::
  "env \<Rightarrow> string \<Rightarrow> string \<Rightarrow> string list \<Rightarrow> nat \<Rightarrow> state \<Rightarrow> nat \<times> state" where
  "download_loop env id_projeto temp_dir [] contador st = (contador, st)"
| "download_loop env id_projeto temp_dir (name # files) contador st =
     (case storage_download env (id_projeto @ ''/'' @ name) (path_join temp_dir name) of
        None \<Rightarrow> download_loop env id_projeto temp_dir files (Suc contador) st
      | Some e \<Rightarrow>
          download_loop env id_projeto temp_dir files contador
            (logger ERROR ''handlers.py'' 209 st))"

text \<open>\<^verbatim>\<open>baixar_imagens_projeto\<close>. Its \<^verbatim>\<open>except\<close> block calls
  \<^verbatim>\<open>config.get_project_temp_dir\<close> again, outside any \<^verbatim>\<open>try\<close>: this is the one place
  where a handler can raise into \<^verbatim>\<open>processar_projeto\<close>.\<close>

definition baixar_imagens_projeto ::
  "env \<Rightarrow> string \<Rightarrow> state \<Rightarrow> (exn + string \<times> nat) \<times> state" where
  "baixar_imagens_projeto env id_projeto st =
     (let (body, st1) =
        (case get_supabase_client env st of
           (Some e, st0) \<Rightarrow> (Inl e, st0)
         | (None, st0) \<Rightarrow>
            (case get_project_temp_dir env id_projeto of
               Inl e \<Rightarrow> (Inl e, st0)
             | Inr temp_dir \<Rightarrow>
                (case storage_list env id_projeto of
                   Inl e \<Rightarrow> (Inl e, st0)
                 | Inr response \<Rightarrow>
                    if response = [] then
                      (Inr (temp_dir, 0), logger ERROR ''handlers.py'' 176 st0)
                    else
                      (case valid_files (supported_extensions (ortomosaico_preset st0))
                              response of
                         Inl e \<Rightarrow> (Inl e, st0)
                       | Inr files \<Rightarrow>
                          (let (contador, st') =
                                 download_loop env id_projeto temp_dir files 0 st0
                           in (Inr (temp_dir, contador), st'))))));
          (r, st2) =
            (case body of
               Inr res \<Rightarrow> (Inr res, st1)
             | Inl e \<Rightarrow>
                (let st' = logger ERROR ''handlers.py'' 215 st1
                 in case get_project_temp_dir env id_projeto of
                      Inl e' \<Rightarrow> (Inl e', st')
                    | Inr temp_dir \<Rightarrow> (Inr (temp_dir, 0), st')))
      in (r, record_call (Baixar_imagens_projeto id_projeto) st2))"

subsection \<open>handlers.py: the WebODM node\<close>

definition is_image :: "string \<Rightarrow> bool" where
  "is_image arquivo =
     list_ex (\<lambda>ext. endswith (lower arquivo) ext)
       [''.jpg'', ''.jpeg'', ''.tif'', ''.tiff'', ''.png'']"

text \<open>\<^verbatim>\<open>float(v)\<close>; parsing a string is left to the environment.\<close>

fun py_float :: "env \<Rightarrow> pyval \<Rightarrow> exn + real" where
  "py_float env (PFloat r) = Inr r"
| "py_float env (PInt i) = Inr (of_int i)"
| "py_float env (PBool b) = Inr (if b then 1 else 0)"
| "py_float env (PStr s) =
     (case float_of_str env s of None \<Rightarrow> Inl ''ValueError'' | Some r \<Rightarrow> Inr r)"
| "py_float env (PList l) = Inl ''TypeError''"

text \<open>\<^verbatim>\<open>d.get(k, default)\<close>\<close>

definition dict_get :: "('k \<rightharpoonup> 'v) \<Rightarrow> 'k \<Rightarrow> 'v \<Rightarrow> 'v" where
  "dict_get d k dflt = (case d k of None \<Rightarrow> dflt | Some v \<Rightarrow> v)"

text \<open>\<^verbatim>\<open>processar_imagens_webodm\<close>. \<^verbatim>\<open>opcoes = config.ortomosaico_preset\<close> is the preset
  object itself, so every assignment to \<^verbatim>\<open>opcoes[...]\<close> is an assignment to the
  process-wide preset; the assignment of \<^verbatim>\<open>"name"\<close> has happened when \<^verbatim>\<open>float\<close>
  raises.\<close>

definition processar_imagens_webodm ::
  "env \<Rightarrow> string \<Rightarrow> string \<Rightarrow> state \<Rightarrow> (task option \<times> bool) \<times> state" where
  "processar_imagens_webodm env caminho_imagens id_projeto st =
     (let (r, st') =
        (case node_connect env of
           Some e \<Rightarrow> ((None, False), logger ERROR ''handlers.py'' 382 st)
         | None \<Rightarrow>
            (case listdir env caminho_imagens of
               Inl e \<Rightarrow> ((None, False), logger ERROR ''handlers.py'' 382 st)
             | Inr entries \<Rightarrow>
                (let imagens =
                       map (\<lambda>(arquivo, isfile). path_join caminho_imagens arquivo)
                         (filter (\<lambda>(arquivo, isfile). isfile \<and> is_image arquivo) entries)
                 in if imagens = [] then
                      ((None, False), logger ERROR ''handlers.py'' 353 st)
                    else
                      (let opcoes = ortomosaico_preset st;
                           opcoes = opcoes(''name'' \<mapsto> PStr (''Projeto_'' @ id_projeto))
                       in case py_float env (dict_get opcoes ''orthophoto-resolution'' (PInt 5)) of
                            Inl e \<Rightarrow>
                              ((None, False),
                               logger ERROR ''handlers.py'' 382
                                 (st\<lparr>ortomosaico_preset := opcoes\<rparr>))
                          | Inr res \<Rightarrow>
                             (let opcoes = opcoes(''orthophoto-resolution'' \<mapsto> PFloat res);
                                  opcoes = opcoes(''dsm'' \<mapsto> dict_get opcoes ''dsm'' (PBool False));
                                  opcoes = opcoes(''dtm'' \<mapsto> dict_get opcoes ''dtm'' (PBool False));
                                  opcoes = opcoes(''gcp'' \<mapsto> PBool False);
                                  opcoes = opcoes(''projection'' \<mapsto> PStr ''EPSG:4326'');
                                  st1 = st\<lparr>ortomosaico_preset := opcoes,
                                           node_tasks := node_tasks st @ [(imagens, opcoes)]\<rparr>
                              in case create_task env imagens opcoes of
                                   Inl e \<Rightarrow>
                                     ((None, False), logger ERROR ''handlers.py'' 382 st1)
                                 | Inr task \<Rightarrow> ((Some task, True), st1))))))
      in (r, record_call (Processar_imagens_webodm caminho_imagens id_projeto) st'))"

text \<open>\<^verbatim>\<open>aguardar_processamento\<close>: one call of the client library's
  \<^verbatim>\<open>wait_for_completion(interval=30, max_retries=max_timeout//30, retry_timeout=5)\<close>
  with \<^verbatim>\<open>max_timeout = 64800\<close>, then one \<^verbatim>\<open>task.info()\<close>.\<close>

definition aguardar_processamento :: "env \<Rightarrow> task \<Rightarrow> state \<Rightarrow> (string \<times> bool) \<times> state" where
  "aguardar_processamento env task st =
     (let max_timeout = (64800 :: nat);
          (r, st') =
            (case wait_for_completion env task 30 (max_timeout div 30) 5 of
               Some e \<Rightarrow> ((''FAILED'', False), logger ERROR ''handlers.py'' 418 st)
             | None \<Rightarrow>
                (case task_info env task of
                   Inl e \<Rightarrow> ((''FAILED'', False), logger ERROR ''handlers.py'' 418 st)
                 | Inr status \<Rightarrow> ((status, status = ''COMPLETED''), st)))
      in (r, record_call (Aguardar_processamento task) st'))"

definition baixar_resultados ::
  "env \<Rightarrow> task \<Rightarrow> string \<Rightarrow> state \<Rightarrow> (string option \<times> bool) \<times> state" where
  "baixar_resultados env task id_projeto st =
     (let falha = ((None, False), logger ERROR ''handlers.py'' 461 st);
          (r, st') =
        (case get_project_temp_dir env id_projeto of
           Inl e \<Rightarrow> falha
         | Inr temp_dir \<Rightarrow>
            (let dir_resultados = path_join temp_dir ''resultados'' in
             case makedirs env dir_resultados of
               Some e \<Rightarrow> falha
             | None \<Rightarrow>
                (case download_assets env task dir_resultados of
                   Some e \<Rightarrow> falha
                 | None \<Rightarrow>
                    (let caminho_ortomosaico_original =
                           path_join (path_join dir_resultados ''odm_orthophoto'')
                             ''odm_orthophoto.tif''
                     in if \<not> path_exists env caminho_ortomosaico_original then
                          ((None, False), logger ERROR ''handlers.py'' 448 st)
                        else
                          (let caminho_ortomosaico_final =
                                 path_join dir_resultados ''odm_orthophoto.tif''
                           in case copy2 env caminho_ortomosaico_original
                                     caminho_ortomosaico_final of
                                Some e \<Rightarrow> falha
                              | None \<Rightarrow> ((Some caminho_ortomosaico_final, True), st))))))
      in (r, record_call (Baixar_resultados task id_projeto) st'))"

subsection \<open>handlers.py: metadata, publication, notification, cleanup\<close>

text \<open>The parameter lines of the metadata file: the scalar entries of \<open>opcoes\<close> whose
  key does not start with an underscore (the file lists them sorted by key; the text
  layout is not modelled).\<close>

definition parametros_relatorio :: "(string \<rightharpoonup> pyval) \<Rightarrow> (string \<rightharpoonup> pyval)" where
  "parametros_relatorio opcoes =
     (\<lambda>param. case opcoes param of
        None \<Rightarrow> None
      | Some valor \<Rightarrow> if is_scalar valor \<and> \<not> startswith param ''_'' then Some valor else None)"

definition gerar_metadados ::
  "env \<Rightarrow> string \<Rightarrow> string \<Rightarrow> string \<Rightarrow> task \<Rightarrow> (string \<rightharpoonup> pyval) \<Rightarrow> nat \<Rightarrow>
   (string \<times> string) list \<Rightarrow> state \<Rightarrow> string option \<times> state" where
  "gerar_metadados env id_projeto dir_imagens caminho_ortomosaico task opcoes num_imagens
       dados_requisicao st =
     (let (r, st') =
        (let dir_resultados = dirname caminho_ortomosaico in
         case task_info env task of
           Inl e \<Rightarrow> (None, logger ERROR ''handlers.py'' 572 st)
         | Inr status \<Rightarrow>
            (let caminho_metadados = path_join dir_resultados ''metadados.txt'' in
             case write_file env caminho_metadados of
               Some e \<Rightarrow> (None, logger ERROR ''handlers.py'' 572 st)
             | None \<Rightarrow>
                 (Some caminho_metadados, st\<lparr>metadados := Some (parametros_relatorio opcoes)\<rparr>)))
      in (r, record_call (Gerar_metadados id_projeto) st'))"

text \<open>\<^verbatim>\<open>enviar_ortomosaico_para_bucket\<close>. Before the upload the handler probes
  \<^verbatim>\<open>get_public_url(f"{id_projeto}/")\<close>; if the probe raises it tries to create the
  folder by uploading an empty file to \<^verbatim>\<open>{id_projeto}/.folder\<close>, and goes on whatever
  happens there (\<open>criar_pasta\<close>). The object name of the mosaic is
  \<^verbatim>\<open>odm_ortophoto.tif\<close>, as in the source. \<open>uploads\<close> records the upload requests;
  opening the local file is taken as part of the upload call.\<close>

definition criar_pasta :: "env \<Rightarrow> string \<Rightarrow> state \<Rightarrow> state" where
  "criar_pasta env id_projeto st =
     (let temp_file = path_join (TEMP_DIR env) ''temp.txt'' in
      case write_file env temp_file of
        Some e \<Rightarrow> logger WARNING ''handlers.py'' 257 st
      | None \<Rightarrow>
         (let st' = st\<lparr>uploads := uploads st @ [(''Ortomosaicos'', id_projeto @ ''/.folder'')]\<rparr>
          in case storage_upload env ''Ortomosaicos'' (id_projeto @ ''/.folder'') of
               Some e \<Rightarrow> logger WARNING ''handlers.py'' 257 st'
             | None \<Rightarrow>
                (case remove_file env temp_file of
                   Some e \<Rightarrow> logger WARNING ''handlers.py'' 257 st'
                 | None \<Rightarrow> st')))"

definition enviar_ortomosaico_para_bucket ::
  "env \<Rightarrow> string \<Rightarrow> string \<Rightarrow> state \<Rightarrow> (string option \<times> bool) \<times> state" where
  "enviar_ortomosaico_para_bucket env id_projeto caminho_ortomosaico st =
     (let (r, st') =
        (case get_supabase_client env st of
           (Some e, st0) \<Rightarrow> ((None, False), logger ERROR ''handlers.py'' 279 st0)
         | (None, st0) \<Rightarrow>
            if \<not> path_exists env caminho_ortomosaico then
              ((None, False), logger ERROR ''handlers.py'' 235 st0)
            else
              (let st1 =
                 (case get_public_url env ''Ortomosaicos'' (id_projeto @ ''/'') of
                    Inr u \<Rightarrow> st0
                  | Inl e \<Rightarrow> criar_pasta env id_projeto st0);
                   nome_arquivo = ''odm_ortophoto.tif'';
                   caminho_bucket = id_projeto @ ''/'' @ nome_arquivo;
                   st2 = st1\<lparr>uploads := uploads st1 @ [(''Ortomosaicos'', caminho_bucket)]\<rparr>
               in case storage_upload env ''Ortomosaicos'' caminho_bucket of
                    Some e \<Rightarrow> ((None, False), logger ERROR ''handlers.py'' 279 st2)
                  | None \<Rightarrow>
                     (case get_public_url env ''Ortomosaicos'' caminho_bucket of
                        Inl e \<Rightarrow> ((None, False), logger ERROR ''handlers.py'' 279 st2)
                      | Inr url \<Rightarrow> ((Some url, True), st2))))
      in (r, record_call (Enviar_ortomosaico_para_bucket id_projeto caminho_ortomosaico) st'))"

definition enviar_metadados_para_bucket ::
  "env \<Rightarrow> string \<Rightarrow> string \<Rightarrow> state \<Rightarrow> bool \<times> state" where
  "enviar_metadados_para_bucket env id_projeto caminho_metadados st =
     (let (r, st') =
        (case get_supabase_client env st of
           (Some e, st0) \<Rightarrow> (False, logger ERROR ''handlers.py'' 317 st0)
         | (None, st0) \<Rightarrow>
            if \<not> path_exists env caminho_metadados then
              (False, logger ERROR ''handlers.py'' 298 st0)
            else
              (let nome_arquivo = ''metadados.txt'';
                   caminho_bucket = id_projeto @ ''/'' @ nome_arquivo;
                   st1 = st0\<lparr>uploads := uploads st0 @ [(''Ortomosaicos'', caminho_bucket)]\<rparr>
               in case storage_upload env ''Ortomosaicos'' caminho_bucket of
                    Some e \<Rightarrow> (False, logger ERROR ''handlers.py'' 317 st1)
                  | None \<Rightarrow> (True, st1)))
      in (r, record_call (Enviar_metadados_para_bucket id_projeto caminho_metadados) st'))"

text \<open>\<^verbatim>\<open>enviar_webhook\<close>: nothing is posted when no webhook URL is configured. The body
  posted is built by \<open>webhook_payload\<close>; for a success without a URL the handler first
  looks the URL up in the table (\<open>webhook_url\<close>, and \<open>webhook_lookup_log\<close> for what that
  lookup logs).\<close>

definition webhook_url :: "env \<Rightarrow> string \<Rightarrow> string \<Rightarrow> string option \<Rightarrow> string option" where
  "webhook_url env id_projeto status url_ortomosaico =
     (if status = ''sucesso'' \<and> \<not> truthy url_ortomosaico then
        (case create_client env of
           Some e \<Rightarrow> url_ortomosaico
         | None \<Rightarrow>
            (case table_select_url env id_projeto of
               Inl e \<Rightarrow> url_ortomosaico
             | Inr found \<Rightarrow> if truthy found then found else url_ortomosaico))
      else url_ortomosaico)"

definition webhook_lookup_log ::
  "env \<Rightarrow> string \<Rightarrow> string \<Rightarrow> string option \<Rightarrow> state \<Rightarrow> state" where
  "webhook_lookup_log env id_projeto status url_ortomosaico st =
     (if status = ''sucesso'' \<and> \<not> truthy url_ortomosaico then
        (case get_supabase_client env st of
           (Some e, st0) \<Rightarrow> logger WARNING ''handlers.py'' 614 st0
         | (None, st0) \<Rightarrow>
            (case table_select_url env id_projeto of
               Inl e \<Rightarrow> logger WARNING ''handlers.py'' 614 st0
             | Inr found \<Rightarrow> st0))
      else st)"

definition webhook_payload ::
  "env \<Rightarrow> string \<Rightarrow> string \<Rightarrow> string option \<Rightarrow> string option \<Rightarrow> (string \<times> string) list" where
  "webhook_payload env id_projeto status url_ortomosaico mensagem =
     [(''id_projeto'', id_projeto), (''status'', status), (''timestamp'', now_iso env)] @
     (case webhook_url env id_projeto status url_ortomosaico of
        None \<Rightarrow> []
      | Some u \<Rightarrow> if u = [] then [] else [(''url_ortomosaico'', u)]) @
     (case mensagem of
        None \<Rightarrow> []
      | Some m \<Rightarrow> if m = [] then [] else [(''mensagem'', m)])"

definition enviar_webhook ::
  "env \<Rightarrow> string \<Rightarrow> string \<Rightarrow> string option \<Rightarrow> string option \<Rightarrow> state \<Rightarrow> bool \<times> state" where
  "enviar_webhook env id_projeto status url_ortomosaico mensagem st =
     (let (r, st') =
        (case WEBHOOK_URL env of
           None \<Rightarrow> (False, logger WARNING ''handlers.py'' 592 st)
         | Some endpoint \<Rightarrow>
            if endpoint = [] then (False, logger WARNING ''handlers.py'' 592 st)
            else
              (let st0 = webhook_lookup_log env id_projeto status url_ortomosaico st;
                   payload = webhook_payload env id_projeto status url_ortomosaico mensagem;
                   st1 = st0\<lparr>posted := posted st0 @ [payload]\<rparr>
               in case requests_post env endpoint payload of
                    Inl e \<Rightarrow> (False, logger ERROR ''handlers.py'' 641 st1)
                  | Inr code \<Rightarrow>
                      if 200 \<le> code \<and> code < 300 then (True, st1)
                      else (False, logger ERROR ''handlers.py'' 637 st1)))
      in (r, record_call (Enviar_webhook id_projeto status url_ortomosaico mensagem) st'))"

definition limpar_arquivos_temporarios :: "env \<Rightarrow> string \<Rightarrow> state \<Rightarrow> bool \<times> state" where
  "limpar_arquivos_temporarios env id_projeto st =
     (let (r, st') =
        (case get_project_temp_dir env id_projeto of
           Inl e \<Rightarrow> (False, logger ERROR ''handlers.py'' 669 st)
         | Inr dir_projeto \<Rightarrow>
            if path_exists env dir_projeto then
              (case rmtree env dir_projeto of
                 Some e \<Rightarrow> (False, logger ERROR ''handlers.py'' 669 st)
               | None \<Rightarrow> (True, st))
            else (False, logger WARNING ''handlers.py'' 665 st))
      in (r, record_call (Limpar_arquivos_temporarios id_projeto) st'))"

subsection \<open>main.py: the pipeline\<close>

text \<open>The block that \<^verbatim>\<open>processar_projeto\<close> repeats at its abort exits (lines 119-122,
  132-135, 142-145, 162-165 and, in the \<^verbatim>\<open>except\<close> clause, 196-204): ledger update
  with an error status, error webhook, cleanup, \<^verbatim>\<open>return False\<close>.\<close>

definition abortar ::
  "env \<Rightarrow> string \<Rightarrow> string \<Rightarrow> string \<Rightarrow> string \<Rightarrow> state \<Rightarrow> bool \<times> state" where
  "abortar env id_projeto registro_id status_orto mensagem st =
     (let (_, st1) = atualizar_registro_requisicao env registro_id None (Some status_orto) None st;
          (_, st2) = enviar_webhook env id_projeto ''erro'' None (Some mensagem) st1;
          (_, st3) = limpar_arquivos_temporarios env id_projeto st2
      in (False, st3))"

text \<open>\<^verbatim>\<open>processar_projeto\<close>. The exit for zero images (lines 108-112) and the exit for a
  failed final ledger update (lines 176-180) are written out, because they differ from
  the block above: the first has no cleanup, the second no ledger update.\<close>

definition processar_projeto ::
  "env \<Rightarrow> string \<Rightarrow> string \<Rightarrow> (string \<times> string) list \<Rightarrow> state \<Rightarrow> bool \<times> state" where
  "processar_projeto env id_projeto registro_id dados_requisicao st0 =
     (case baixar_imagens_projeto env id_projeto st0 of
        (Inl e, st1) \<Rightarrow>
          abortar env id_projeto registro_id (''Erro: '' @ e) e
            (logger ERROR ''main.py'' 192 st1)
      | (Inr (dir_imagens, num_imagens), st1) \<Rightarrow>
         if num_imagens = 0 then
           (let (_, st2) = atualizar_registro_requisicao env registro_id None
                             (Some ''Erro: Nenhuma imagem encontrada'') None
                             (logger ERROR ''main.py'' 109 st1);
                (_, st3) = enviar_webhook env id_projeto ''erro'' None
                             (Some ''Nenhuma imagem encontrada'') st2
            in (False, st3))
         else
           (case processar_imagens_webodm env dir_imagens id_projeto st1 of
              ((None, success), st2) \<Rightarrow>
                abortar env id_projeto registro_id ''Erro: Falha ao iniciar processamento''
                  ''Falha ao iniciar processamento no WebODM''
                  (logger ERROR ''main.py'' 118 st2)
            | ((Some task, success), st2) \<Rightarrow>
               if \<not> success then
                 abortar env id_projeto registro_id ''Erro: Falha ao iniciar processamento''
                   ''Falha ao iniciar processamento no WebODM''
                   (logger ERROR ''main.py'' 118 st2)
               else
                 (let (_, st3) = atualizar_registro_requisicao env registro_id
                                   (Some (uuid task)) None None st2
                  in case aguardar_processamento env task st3 of
                       ((status, success), st4) \<Rightarrow>
                         if \<not> success then
                           abortar env id_projeto registro_id (''Erro: '' @ status)
                             (''Processamento falhou: '' @ status)
                             (logger ERROR ''main.py'' 131 st4)
                         else
                           (case baixar_resultados env task id_projeto st4 of
                              ((None, success), st5) \<Rightarrow>
                                abortar env id_projeto registro_id
                                  ''Erro: Falha ao baixar resultados''
                                  ''Falha ao baixar resultados''
                                  (logger ERROR ''main.py'' 141 st5)
                            | ((Some caminho_ortomosaico, success), st5) \<Rightarrow>
                               if \<not> success \<or> caminho_ortomosaico = [] then
                                 abortar env id_projeto registro_id
                                   ''Erro: Falha ao baixar resultados''
                                   ''Falha ao baixar resultados''
                                   (logger ERROR ''main.py'' 141 st5)
                               else
                                 (let (caminho_metadados, st6) =
                                        gerar_metadados env id_projeto dir_imagens
                                          caminho_ortomosaico task (ortomosaico_preset st5)
                                          num_imagens dados_requisicao st5;
                                      st6 = (if truthy caminho_metadados then st6
                                             else logger WARNING ''main.py'' 154 st6)
                                  in case enviar_ortomosaico_para_bucket env id_projeto
                                            caminho_ortomosaico st6 of
                                       ((None, success), st7) \<Rightarrow>
                                         abortar env id_projeto registro_id
                                           ''Erro: Falha ao enviar ortomosaico''
                                           ''Falha ao enviar ortomosaico para o bucket''
                                           (logger ERROR ''main.py'' 161 st7)
                                     | ((Some url_ortomosaico, success), st7) \<Rightarrow>
                                        if \<not> success \<or> url_ortomosaico = [] then
                                          abortar env id_projeto registro_id
                                            ''Erro: Falha ao enviar ortomosaico''
                                            ''Falha ao enviar ortomosaico para o bucket''
                                            (logger ERROR ''main.py'' 161 st7)
                                        else
                                          (let st8 =
                                             (if truthy caminho_metadados then
                                                (case caminho_metadados of
                                                   None \<Rightarrow> st7
                                                 | Some caminho \<Rightarrow>
                                                     snd (enviar_metadados_para_bucket env
                                                            id_projeto caminho st7))
                                              else st7);
                                               (success_db, st9) =
                                                 atualizar_registro_requisicao env registro_id
                                                   None (Some ''Sucesso'') (Some url_ortomosaico)
                                                   st8
                                           in if \<not> success_db then
                                                (let (_, st10) =
                                                       enviar_webhook env id_projeto ''erro'' None
                                                         (Some ''Falha ao atualizar registro no banco de dados'')
                                                         (logger ERROR ''main.py'' 177 st9);
                                                     (_, st11) =
                                                       limpar_arquivos_temporarios env id_projeto
                                                         st10
                                                 in (False, st11))
                                              else
                                                (let (_, st10) =
                                                       enviar_webhook env id_projeto ''sucesso''
                                                         (Some url_ortomosaico) None st9;
                                                     (_, st11) =
                                                       limpar_arquivos_temporarios env id_projeto
                                                         st10
                                                 in (True, st11))))))))"

text \<open>The handler calls made by one run, in order.\<close>

definition run_events ::
  "env \<Rightarrow> string \<Rightarrow> string \<Rightarrow> (string \<times> string) list \<Rightarrow> state \<Rightarrow> event list" where
  "run_events env id_projeto registro_id dados_requisicao st =
     drop (length (trace st))
       (trace (snd (processar_projeto env id_projeto registro_id dados_requisicao st)))"

text \<open>The warnings and errors logged by one run, in order.\<close>

definition run_log ::
  "env \<Rightarrow> string \<Rightarrow> string \<Rightarrow> (string \<times> string) list \<Rightarrow> state \<Rightarrow> log_record list" where
  "run_log env id_projeto registro_id dados_requisicao st =
     drop (length (log st))
       (log (snd (processar_projeto env id_projeto registro_id dados_requisicao st)))"

subsection \<open>Auxiliary definitions for the proofs\<close>

text \<open>The value a handler call returns, for the handlers whose return value does not
  depend on the state (lemmas \<open>*_returned\<close> below): it is read off an empty state.\<close>

definition returned :: "(state \<Rightarrow> 'a \<times> state) \<Rightarrow> 'a" where
  "returned h =
     fst (h \<lparr>ortomosaico_preset = Map.empty, requisicoes = Map.empty, db_log = [],
             uploads = [], node_tasks = [], metadados = None, posted = [], log = [],
             trace = []\<rparr>)"

text \<open>\<open>log_extends st st'\<close>: the log of \<open>st'\<close> is the log of \<open>st\<close> with records appended;
  \<open>logs_record r st st'\<close>: and \<open>r\<close> is one of the appended records.\<close>

definition log_extends :: "state \<Rightarrow> state \<Rightarrow> bool" where
  "log_extends st st' = prefix (log st) (log st')"

definition logs_record :: "log_record \<Rightarrow> state \<Rightarrow> state \<Rightarrow> bool" where
  "logs_record r st st' =
     (prefix (log st) (log st') \<and> r \<in> set (drop (length (log st)) (log st')))"

text \<open>The three calls of \<open>abortar\<close>, as events.\<close>

definition abort_events :: "env \<Rightarrow> string \<Rightarrow> string \<Rightarrow> string \<Rightarrow> string \<Rightarrow> event list" where
  "abort_events env i reg s m =
     [Atualizar_registro_requisicao reg None (Some s) None
        (returned (atualizar_registro_requisicao env reg None (Some s) None)),
      Enviar_webhook i ''erro'' None (Some m),
      Limpar_arquivos_temporarios i]"

text \<open>The return value and the events of a run, as a function of what the handlers
  return (lemmas \<open>run_summary_fst\<close> and \<open>run_summary_trace\<close> prove that this is what
  \<open>processar_projeto\<close> does).\<close>

definition run_summary ::
  "env \<Rightarrow> string \<Rightarrow> string \<Rightarrow> (string \<times> string) list \<Rightarrow> state \<Rightarrow> bool \<times> event list" where
  "run_summary env i reg dados st =
     (case fst (baixar_imagens_projeto env i st) of
        Inl e \<Rightarrow> (False, Baixar_imagens_projeto i # abort_events env i reg (''Erro: '' @ e) e)
      | Inr (d, n) \<Rightarrow>
         if n = 0 then
           (False,
            [Baixar_imagens_projeto i,
             Atualizar_registro_requisicao reg None (Some ''Erro: Nenhuma imagem encontrada'') None
               (fst (atualizar_registro_requisicao env reg None
                       (Some ''Erro: Nenhuma imagem encontrada'') None st)),
             Enviar_webhook i ''erro'' None (Some ''Nenhuma imagem encontrada'')])
         else
           (case fst (processar_imagens_webodm env d i st) of
              (Some t, True) \<Rightarrow>
                (let pre3 = [Baixar_imagens_projeto i, Processar_imagens_webodm d i,
                             Atualizar_registro_requisicao reg (Some (uuid t)) None None
                               (fst (atualizar_registro_requisicao env reg (Some (uuid t))
                                       None None st)),
                             Aguardar_processamento t]
                 in case fst (aguardar_processamento env t st) of
                      (status, False) \<Rightarrow>
                        (False, pre3 @ abort_events env i reg (''Erro: '' @ status)
                                         (''Processamento falhou: '' @ status))
                    | (status, True) \<Rightarrow>
                       (let pre4 = pre3 @ [Baixar_resultados t i];
                            falha4 = (False, pre4 @ abort_events env i reg
                                        ''Erro: Falha ao baixar resultados''
                                        ''Falha ao baixar resultados'')
                        in case fst (baixar_resultados env t i st) of
                             (Some c, True) \<Rightarrow>
                               if c = [] then falha4
                               else
                                 (let pre6 = pre4 @ [Gerar_metadados i,
                                                     Enviar_ortomosaico_para_bucket i c];
                                      falha6 = (False, pre6 @ abort_events env i reg
                                                  ''Erro: Falha ao enviar ortomosaico''
                                                  ''Falha ao enviar ortomosaico para o bucket'')
                                  in case fst (enviar_ortomosaico_para_bucket env i c st) of
                                       (Some u, True) \<Rightarrow>
                                         if u = [] then falha6
                                         else
                                           (let pre7 = pre6 @
                                                  (case fst (gerar_metadados env i d c t
                                                               (ortomosaico_preset st) n dados st) of
                                                     None \<Rightarrow> []
                                                   | Some cm \<Rightarrow>
                                                       if cm = [] then []
                                                       else [Enviar_metadados_para_bucket i cm])
                                            in if fst (atualizar_registro_requisicao env reg None
                                                         (Some ''Sucesso'') (Some u) st)
                                               then (True, pre7 @
                                                  [Atualizar_registro_requisicao reg None
                                                     (Some ''Sucesso'') (Some u) True,
                                                   Enviar_webhook i ''sucesso'' (Some u) None,
                                                   Limpar_arquivos_temporarios i])
                                               else (False, pre7 @
                                                  [Atualizar_registro_requisicao reg None
                                                     (Some ''Sucesso'') (Some u) False,
                                                   Enviar_webhook i ''erro'' None
                                                     (Some ''Falha ao atualizar registro no banco de dados''),
                                                   Limpar_arquivos_temporarios i]))
                                     | _ \<Rightarrow> falha6)
                           | _ \<Rightarrow> falha4))
            | _ \<Rightarrow>
                (False, [Baixar_imagens_projeto i, Processar_imagens_webodm d i] @
                        abort_events env i reg ''Erro: Falha ao iniciar processamento''
                          ''Falha ao iniciar processamento no WebODM'')))"

text \<open>The exits of a run: which handler results lead to it, what the run returns
  and which events it leaves (lemma \<open>run_has_shape\<close>). \<open>b\<close> and \<open>b1\<close> stand for what the
  ledger updates returned; \<open>meta\<close> is the metadata upload, made only when a metadata
  file was written.\<close>

inductive run_shape ::
  "env \<Rightarrow> string \<Rightarrow> string \<Rightarrow> state \<Rightarrow> bool \<Rightarrow> event list \<Rightarrow> bool"
  for env i reg st where
  unexpected:
    "fst (baixar_imagens_projeto env i st) = Inl e \<Longrightarrow>
     run_shape env i reg st False
       [Baixar_imagens_projeto i,
        Atualizar_registro_requisicao reg None (Some (''Erro: '' @ e)) None b,
        Enviar_webhook i ''erro'' None (Some e),
        Limpar_arquivos_temporarios i]"
| no_input:
    "fst (baixar_imagens_projeto env i st) = Inr (d, 0) \<Longrightarrow>
     run_shape env i reg st False
       [Baixar_imagens_projeto i,
        Atualizar_registro_requisicao reg None (Some ''Erro: Nenhuma imagem encontrada'') None b,
        Enviar_webhook i ''erro'' None (Some ''Nenhuma imagem encontrada'')]"
| submit_failed:
    "fst (baixar_imagens_projeto env i st) = Inr (d, n) \<Longrightarrow> n \<noteq> 0 \<Longrightarrow>
     \<not> (\<exists>t. fst (processar_imagens_webodm env d i st) = (Some t, True)) \<Longrightarrow>
     run_shape env i reg st False
       [Baixar_imagens_projeto i, Processar_imagens_webodm d i,
        Atualizar_registro_requisicao reg None (Some ''Erro: Falha ao iniciar processamento'')
          None b,
        Enviar_webhook i ''erro'' None (Some ''Falha ao iniciar processamento no WebODM''),
        Limpar_arquivos_temporarios i]"
| processing_failed:
    "fst (baixar_imagens_projeto env i st) = Inr (d, n) \<Longrightarrow> n \<noteq> 0 \<Longrightarrow>
     fst (processar_imagens_webodm env d i st) = (Some t, True) \<Longrightarrow>
     fst (aguardar_processamento env t st) = (status, False) \<Longrightarrow>
     run_shape env i reg st False
       [Baixar_imagens_projeto i, Processar_imagens_webodm d i,
        Atualizar_registro_requisicao reg (Some (uuid t)) None None b1,
        Aguardar_processamento t,
        Atualizar_registro_requisicao reg None (Some (''Erro: '' @ status)) None b,
        Enviar_webhook i ''erro'' None (Some (''Processamento falhou: '' @ status)),
        Limpar_arquivos_temporarios i]"
| result_missing:
    "fst (baixar_imagens_projeto env i st) = Inr (d, n) \<Longrightarrow> n \<noteq> 0 \<Longrightarrow>
     fst (processar_imagens_webodm env d i st) = (Some t, True) \<Longrightarrow>
     fst (aguardar_processamento env t st) = (status, True) \<Longrightarrow>
     \<not> (\<exists>c. fst (baixar_resultados env t i st) = (Some c, True) \<and> c \<noteq> []) \<Longrightarrow>
     run_shape env i reg st False
       [Baixar_imagens_projeto i, Processar_imagens_webodm d i,
        Atualizar_registro_requisicao reg (Some (uuid t)) None None b1,
        Aguardar_processamento t, Baixar_resultados t i,
        Atualizar_registro_requisicao reg None (Some ''Erro: Falha ao baixar resultados'') None b,
        Enviar_webhook i ''erro'' None (Some ''Falha ao baixar resultados''),
        Limpar_arquivos_temporarios i]"
| publish_failed:
    "fst (baixar_imagens_projeto env i st) = Inr (d, n) \<Longrightarrow> n \<noteq> 0 \<Longrightarrow>
     fst (processar_imagens_webodm env d i st) = (Some t, True) \<Longrightarrow>
     fst (aguardar_processamento env t st) = (status, True) \<Longrightarrow>
     fst (baixar_resultados env t i st) = (Some c, True) \<Longrightarrow> c \<noteq> [] \<Longrightarrow>
     \<not> (\<exists>u. fst (enviar_ortomosaico_para_bucket env i c st) = (Some u, True) \<and> u \<noteq> []) \<Longrightarrow>
     run_shape env i reg st False
       [Baixar_imagens_projeto i, Processar_imagens_webodm d i,
        Atualizar_registro_requisicao reg (Some (uuid t)) None None b1,
        Aguardar_processamento t, Baixar_resultados t i, Gerar_metadados i,
        Enviar_ortomosaico_para_bucket i c,
        Atualizar_registro_requisicao reg None (Some ''Erro: Falha ao enviar ortomosaico'') None b,
        Enviar_webhook i ''erro'' None (Some ''Falha ao enviar ortomosaico para o bucket''),
        Limpar_arquivos_temporarios i]"
| commit_failed:
    "fst (baixar_imagens_projeto env i st) = Inr (d, n) \<Longrightarrow> n \<noteq> 0 \<Longrightarrow>
     fst (processar_imagens_webodm env d i st) = (Some t, True) \<Longrightarrow>
     fst (aguardar_processamento env t st) = (status, True) \<Longrightarrow>
     fst (baixar_resultados env t i st) = (Some c, True) \<Longrightarrow> c \<noteq> [] \<Longrightarrow>
     fst (enviar_ortomosaico_para_bucket env i c st) = (Some u, True) \<Longrightarrow> u \<noteq> [] \<Longrightarrow>
     \<not> fst (atualizar_registro_requisicao env reg None (Some ''Sucesso'') (Some u) st) \<Longrightarrow>
     meta = [] \<or> meta = [Enviar_metadados_para_bucket i cm] \<Longrightarrow>
     run_shape env i reg st False
       ([Baixar_imagens_projeto i, Processar_imagens_webodm d i,
         Atualizar_registro_requisicao reg (Some (uuid t)) None None b1,
         Aguardar_processamento t, Baixar_resultados t i, Gerar_metadados i,
         Enviar_ortomosaico_para_bucket i c] @ meta @
        [Atualizar_registro_requisicao reg None (Some ''Sucesso'') (Some u) False,
         Enviar_webhook i ''erro'' None (Some ''Falha ao atualizar registro no banco de dados''),
         Limpar_arquivos_temporarios i])"
| success:
    "fst (baixar_imagens_projeto env i st) = Inr (d, n) \<Longrightarrow> n \<noteq> 0 \<Longrightarrow>
     fst (processar_imagens_webodm env d i st) = (Some t, True) \<Longrightarrow>
     fst (aguardar_processamento env t st) = (status, True) \<Longrightarrow>
     fst (baixar_resultados env t i st) = (Some c, True) \<Longrightarrow> c \<noteq> [] \<Longrightarrow>
     fst (enviar_ortomosaico_para_bucket env i c st) = (Some u, True) \<Longrightarrow> u \<noteq> [] \<Longrightarrow>
     fst (atualizar_registro_requisicao env reg None (Some ''Sucesso'') (Some u) st) \<Longrightarrow>
     meta = [] \<or> meta = [Enviar_metadados_para_bucket i cm] \<Longrightarrow>
     run_shape env i reg st True
       ([Baixar_imagens_projeto i, Processar_imagens_webodm d i,
         Atualizar_registro_requisicao reg (Some (uuid t)) None None b1,
         Aguardar_processamento t, Baixar_resultados t i, Gerar_metadados i,
         Enviar_ortomosaico_para_bucket i c] @ meta @
        [Atualizar_registro_requisicao reg None (Some ''Sucesso'') (Some u) True,
         Enviar_webhook i ''sucesso'' (Some u) None,
         Limpar_arquivos_temporarios i])"

subsection \<open>Example environment\<close>

text \<open>The preset \<^verbatim>\<open>"padrao"\<close> of \<^verbatim>\<open>settings.ODM_QUALITY_PRESETS\<close>, the value of
  \<^verbatim>\<open>config.ortomosaico_preset\<close> when the process starts with the default
  \<^verbatim>\<open>ACTIVE_PRESET\<close>.\<close>

definition preset_padrao :: "string \<rightharpoonup> pyval" where
  "preset_padrao = map_of
     [(''feature-quality'', PStr ''high''),
      (''min-num-features'', PInt 10000),
      (''matcher-neighbors'', PInt 8),
      (''matcher-distance'', PInt 3),
      (''feature-type'', PStr ''sift''),
      (''optimize-disk-space'', PBool True),
      (''pc-quality'', PStr ''high''),
      (''pc-filter'', PFloat (5 / 2)),
      (''depthmap-resolution'', PInt 640),
      (''dem-resolution'', PStr ''2''),
      (''orthophoto-cutline'', PBool True),
      (''use-3dmesh'', PBool True),
      (''cog'', PBool True),
      (''auto-boundary'', PBool True),
      (''dsm'', PBool False),
      (''dtm'', PBool False),
      (''skip-3dmodel'', PBool True),
      (''skip-report'', PBool True),
      (''pc-classify'', PBool False)]"

text \<open>A process that has just started, with one ledger row in its initial state.\<close>

definition st_init :: state where
  "st_init =
     \<lparr>ortomosaico_preset = preset_padrao,
      requisicoes = [''rec-1'' \<mapsto> [''id_projeto'' \<mapsto> ''P1'', ''status_orto'' \<mapsto> ''Processando'']],
      db_log = [], uploads = [], node_tasks = [], metadados = None, posted = [], log = [],
      trace = []\<rparr>"

text \<open>An environment in which every service answers and nothing raises: the bucket
  lists two images and a text file, the node creates task \<open>uuid-1\<close>, and the task is
  reported as completed.\<close>

definition env_ok :: env where
  "env_ok =
     \<lparr>TEMP_DIR = ''/app/temp'',
      WEBHOOK_URL = Some ''https://hook.example/notify'',
      create_client = None,
      table_update = (\<lambda>i data. None),
      table_select_url = (\<lambda>i. Inr None),
      storage_list = (\<lambda>i. Inr [''a.jpg'', ''b.JPG'', ''notes.txt'']),
      storage_download = (\<lambda>p l. None),
      storage_upload = (\<lambda>b p. None),
      get_public_url = (\<lambda>b p. Inr (''https://store.example/'' @ b @ ''/'' @ p)),
      makedirs = (\<lambda>p. None),
      path_exists = (\<lambda>p. True),
      write_file = (\<lambda>p. None),
      remove_file = (\<lambda>p. None),
      copy2 = (\<lambda>a b. None),
      rmtree = (\<lambda>p. None),
      listdir = (\<lambda>p. Inr [(''a.jpg'', True), (''b.JPG'', True)]),
      node_connect = None,
      float_of_str = (\<lambda>s. None),
      create_task = (\<lambda>imagens opcoes. Inr (Task ''uuid-1'')),
      wait_for_completion = (\<lambda>t interval max_retries retry_timeout. None),
      task_info = (\<lambda>t. Inr ''COMPLETED''),
      download_assets = (\<lambda>t d. None),
      now_iso = ''2025-03-03T12:00:00-03:00'',
      requests_post = (\<lambda>endpoint payload. Inr 200)\<rparr>"

subsection \<open>Notions used by the statements\<close>

text \<open>The columns a call of \<open>atualizar_registro_requisicao\<close> supplies: a column maps
  to the value of its argument, \<open>None\<close> when the argument is absent.\<close>

definition supplied ::
  "string option \<Rightarrow> string option \<Rightarrow> string option \<Rightarrow> (string \<rightharpoonup> string)" where
  "supplied id_wl status_orto url_ortomosaico =
     (\<lambda>col. if col = ''id_wl'' then id_wl
            else if col = ''status_orto'' then status_orto
            else if col = ''url_ortomosaico'' then url_ortomosaico
            else None)"


fun is_success_webhook :: "event \<Rightarrow> bool" where
  "is_success_webhook (Enviar_webhook i s u m) = (s = ''sucesso'')"
| "is_success_webhook _ = False"


fun is_success_commit :: "event \<Rightarrow> bool" where
  "is_success_commit (Atualizar_registro_requisicao i a b c r) = (b = Some ''Sucesso'')"
| "is_success_commit _ = False"


fun is_cleanup :: "event \<Rightarrow> bool" where
  "is_cleanup (Limpar_arquivos_temporarios i) = True"
| "is_cleanup _ = False"





subsection \<open>Example environments with one failure\<close>

text \<open>The bucket holds no image; the final ledger update raises; the update that
  stores the task id and the upload of the metadata file raise; the metadata file
  cannot be written.\<close>

definition env_no_images :: env where
  "env_no_images = env_ok\<lparr>storage_list := (\<lambda>i. Inr [''notes.txt'', ''readme.md''])\<rparr>"


definition env_nonfatal :: env where
  "env_nonfatal =
     env_ok\<lparr>table_update :=
              (\<lambda>i data. if map_of data ''id_wl'' \<noteq> None then Some ''timeout'' else None),
            storage_upload :=
              (\<lambda>b p. if p = ''P1/metadados.txt'' then Some ''upload refused'' else None)\<rparr>"

definition env_no_metadata :: env where
  "env_no_metadata =
     env_ok\<lparr>write_file :=
       (\<lambda>p. if p = ''/app/temp/P1/resultados/metadados.txt'' then Some ''disk full''
            else None)\<rparr>"



text \<open>The images \<^verbatim>\<open>processar_imagens_webodm\<close> finds among the entries of a
  directory.\<close>

definition imagens_de :: "string \<Rightarrow> (string \<times> bool) list \<Rightarrow> string list" where
  "imagens_de d entries =
     map (\<lambda>(arquivo, isfile). path_join d arquivo)
       (filter (\<lambda>(arquivo, isfile). isfile \<and> is_image arquivo) entries)"

section \<open>Properties\<close>

subsection \<open>What each handler adds to the trace and what it returns\<close>

lemmas log_defs = logger_def get_supabase_client_def record_call_def

lemma logger_frame:
  "trace (logger lvl f n st) = trace st"
  "ortomosaico_preset (logger lvl f n st) = ortomosaico_preset st"
  "requisicoes (logger lvl f n st) = requisicoes st"
  "db_log (logger lvl f n st) = db_log st"
  "uploads (logger lvl f n st) = uploads st"
  "node_tasks (logger lvl f n st) = node_tasks st"
  "metadados (logger lvl f n st) = metadados st"
  "posted (logger lvl f n st) = posted st"
  "log (logger lvl f n st) = log st @ [(lvl, f, n)]"
  by (simp_all add: logger_def)

lemma atualizar_trace:
  "trace (snd (atualizar_registro_requisicao env i a b c st)) =
     trace st @ [Atualizar_registro_requisicao i a b c
                   (fst (atualizar_registro_requisicao env i a b c st))]"
  by (simp add: atualizar_registro_requisicao_def log_defs Let_def
           split: option.splits)

lemma atualizar_result:
  "fst (atualizar_registro_requisicao env i a b c st) =
     (create_client env = None \<and> update_data a b c \<noteq> [] \<and>
      table_update env i (update_data a b c) = None)"
  by (auto simp add: atualizar_registro_requisicao_def log_defs Let_def split: option.splits)

lemma atualizar_requisicoes:
  "requisicoes (snd (atualizar_registro_requisicao env i a b c st)) =
     (if fst (atualizar_registro_requisicao env i a b c st)
      then apply_update i (update_data a b c) (requisicoes st) else requisicoes st)"
  by (auto simp add: atualizar_registro_requisicao_def log_defs Let_def
           split: option.splits)

lemma atualizar_db_log:
  "db_log (snd (atualizar_registro_requisicao env i a b c st)) =
     (if create_client env = None \<and> update_data a b c \<noteq> []
      then db_log st @ [(i, update_data a b c)] else db_log st)"
  by (auto simp add: atualizar_registro_requisicao_def log_defs Let_def
           split: option.splits)

lemma update_data_supplied: "map_of (update_data a b c) = supplied a b c"
  by (auto simp add: update_data_def supplied_def fun_eq_iff split: option.splits)

lemma update_data_empty: "update_data a b c = [] \<longleftrightarrow> a = None \<and> b = None \<and> c = None"
  by (auto simp add: update_data_def split: option.splits)

lemma webhook_lookup_frame:
  "trace (webhook_lookup_log env i s u st) = trace st \<and>
   posted (webhook_lookup_log env i s u st) = posted st \<and>
   ortomosaico_preset (webhook_lookup_log env i s u st) = ortomosaico_preset st \<and>
   requisicoes (webhook_lookup_log env i s u st) = requisicoes st \<and>
   db_log (webhook_lookup_log env i s u st) = db_log st \<and>
   uploads (webhook_lookup_log env i s u st) = uploads st \<and>
   node_tasks (webhook_lookup_log env i s u st) = node_tasks st \<and>
   metadados (webhook_lookup_log env i s u st) = metadados st"
  by (simp add: webhook_lookup_log_def log_defs split: option.splits sum.splits)

lemma webhook_trace:
  "trace (snd (enviar_webhook env i s u m st)) = trace st @ [Enviar_webhook i s u m]"
  by (simp add: enviar_webhook_def log_defs webhook_lookup_frame Let_def
           split: option.splits sum.splits)

lemma limpar_trace:
  "trace (snd (limpar_arquivos_temporarios env i st)) =
     trace st @ [Limpar_arquivos_temporarios i]"
  by (simp add: limpar_arquivos_temporarios_def log_defs Let_def
           split: option.splits sum.splits)

lemma download_loop_frame:
  "trace (snd (download_loop env i d files c st)) = trace st \<and>
   ortomosaico_preset (snd (download_loop env i d files c st)) = ortomosaico_preset st \<and>
   requisicoes (snd (download_loop env i d files c st)) = requisicoes st \<and>
   db_log (snd (download_loop env i d files c st)) = db_log st \<and>
   uploads (snd (download_loop env i d files c st)) = uploads st \<and>
   node_tasks (snd (download_loop env i d files c st)) = node_tasks st \<and>
   metadados (snd (download_loop env i d files c st)) = metadados st \<and>
   posted (snd (download_loop env i d files c st)) = posted st"
  by (induction files arbitrary: c st) (simp_all add: logger_def split: option.splits)

lemma baixar_frame:
  "trace (snd (baixar_imagens_projeto env i st)) = trace st @ [Baixar_imagens_projeto i] \<and>
   ortomosaico_preset (snd (baixar_imagens_projeto env i st)) = ortomosaico_preset st \<and>
   requisicoes (snd (baixar_imagens_projeto env i st)) = requisicoes st \<and>
   db_log (snd (baixar_imagens_projeto env i st)) = db_log st \<and>
   uploads (snd (baixar_imagens_projeto env i st)) = uploads st \<and>
   node_tasks (snd (baixar_imagens_projeto env i st)) = node_tasks st \<and>
   metadados (snd (baixar_imagens_projeto env i st)) = metadados st \<and>
   posted (snd (baixar_imagens_projeto env i st)) = posted st"
  by (simp add: baixar_imagens_projeto_def log_defs download_loop_frame Let_def case_prod_beta
           split: option.splits sum.splits)

lemma baixar_trace:
  "trace (snd (baixar_imagens_projeto env i st)) = trace st @ [Baixar_imagens_projeto i]"
  by (simp add: baixar_frame)

lemma baixar_preset:
  "ortomosaico_preset (snd (baixar_imagens_projeto env i st)) = ortomosaico_preset st"
  by (simp add: baixar_frame)

lemma processar_trace:
  "trace (snd (processar_imagens_webodm env d i st)) =
     trace st @ [Processar_imagens_webodm d i]"
  by (simp add: processar_imagens_webodm_def log_defs Let_def
           split: option.splits sum.splits)

lemma processar_fst_cong:
  "ortomosaico_preset st = ortomosaico_preset st' \<Longrightarrow>
   fst (processar_imagens_webodm env d i st) = fst (processar_imagens_webodm env d i st')"
  by (simp add: processar_imagens_webodm_def log_defs Let_def
           split: option.splits sum.splits)

lemma processar_after_baixar:
  "fst (processar_imagens_webodm env d i (snd (baixar_imagens_projeto env i' st))) =
   fst (processar_imagens_webodm env d i st)"
  by (rule processar_fst_cong) (rule baixar_preset)

lemma aguardar_trace:
  "trace (snd (aguardar_processamento env t st)) = trace st @ [Aguardar_processamento t]"
  by (simp add: aguardar_processamento_def log_defs Let_def split: option.splits sum.splits)

lemma aguardar_indep:
  "fst (aguardar_processamento env t st) = fst (aguardar_processamento env t st')"
  by (simp add: aguardar_processamento_def Let_def split: option.splits sum.splits)

lemma resultados_trace:
  "trace (snd (baixar_resultados env t i st)) = trace st @ [Baixar_resultados t i]"
  by (simp add: baixar_resultados_def log_defs Let_def split: option.splits sum.splits)

lemma resultados_indep:
  "fst (baixar_resultados env t i st) = fst (baixar_resultados env t i st')"
  by (simp add: baixar_resultados_def Let_def split: option.splits sum.splits)

lemma metadados_trace:
  "trace (snd (gerar_metadados env i d c t opc n dados st)) = trace st @ [Gerar_metadados i]"
  by (simp add: gerar_metadados_def log_defs Let_def split: option.splits sum.splits)

lemma metadados_indep:
  "fst (gerar_metadados env i d c t opc n dados st) =
   fst (gerar_metadados env i d c t opc' n' dados' st')"
  by (simp add: gerar_metadados_def Let_def split: option.splits sum.splits)

lemma criar_pasta_trace: "trace (criar_pasta env i st) = trace st"
  by (simp add: criar_pasta_def log_defs Let_def split: option.splits)

lemma enviar_orto_trace:
  "trace (snd (enviar_ortomosaico_para_bucket env i c st)) =
     trace st @ [Enviar_ortomosaico_para_bucket i c]"
  by (simp add: enviar_ortomosaico_para_bucket_def log_defs criar_pasta_trace Let_def
           split: option.splits sum.splits)

lemma enviar_orto_indep:
  "fst (enviar_ortomosaico_para_bucket env i c st) =
   fst (enviar_ortomosaico_para_bucket env i c st')"
  by (simp add: enviar_ortomosaico_para_bucket_def log_defs Let_def
           split: option.splits sum.splits)

lemma enviar_meta_trace:
  "trace (snd (enviar_metadados_para_bucket env i c st)) =
     trace st @ [Enviar_metadados_para_bucket i c]"
  by (simp add: enviar_metadados_para_bucket_def log_defs Let_def
           split: option.splits sum.splits)

lemmas traces = logger_frame(1) atualizar_trace webhook_trace limpar_trace baixar_trace
  processar_trace
  aguardar_trace resultados_trace metadados_trace enviar_orto_trace enviar_meta_trace

lemma atualizar_returned:
  "fst (atualizar_registro_requisicao env i a b c st) =
   returned (atualizar_registro_requisicao env i a b c)"
  by (simp add: atualizar_result returned_def)

lemma aguardar_returned:
  "fst (aguardar_processamento env t st) = returned (aguardar_processamento env t)"
  unfolding returned_def by (rule aguardar_indep)

lemma resultados_returned:
  "fst (baixar_resultados env t i st) = returned (baixar_resultados env t i)"
  unfolding returned_def by (rule resultados_indep)

lemma metadados_returned:
  "fst (gerar_metadados env i d c t opc n dados st) =
   returned (gerar_metadados env i d c t Map.empty 0 [])"
  unfolding returned_def by (rule metadados_indep)

lemma enviar_orto_returned:
  "fst (enviar_ortomosaico_para_bucket env i c st) =
   returned (enviar_ortomosaico_para_bucket env i c)"
  unfolding returned_def by (rule enviar_orto_indep)

lemmas rets = atualizar_returned aguardar_returned resultados_returned metadados_returned
  enviar_orto_returned processar_after_baixar

subsection \<open>The pipeline as a function of what the handlers return\<close>

lemma abortar_fst: "fst (abortar env i reg s m st) = False"
  by (simp add: abortar_def case_prod_beta)

lemma abortar_trace:
  "trace (snd (abortar env i reg s m st)) = trace st @ abort_events env i reg s m"
  by (simp add: abortar_def case_prod_beta traces rets abort_events_def)

lemma run_summary_fst:
  "fst (processar_projeto env i reg dados st) = fst (run_summary env i reg dados st)"
  by (simp add: processar_projeto_def run_summary_def case_prod_beta abortar_fst rets Let_def
           split: sum.splits option.splits prod.splits bool.splits)

lemma run_summary_trace:
  "trace (snd (processar_projeto env i reg dados st)) =
     trace st @ snd (run_summary env i reg dados st)"
  by (simp add: processar_projeto_def run_summary_def case_prod_beta abortar_fst abortar_trace
        traces rets Let_def
           split: sum.splits option.splits prod.splits bool.splits)

lemma run_events_summary:
  "run_events env i reg dados st = snd (run_summary env i reg dados st)"
  by (simp add: run_events_def run_summary_trace)

lemmas shape_rules = run_shape.unexpected[simplified] run_shape.no_input
  run_shape.submit_failed run_shape.processing_failed[simplified] run_shape.result_missing
  run_shape.publish_failed
  run_shape.commit_failed[where meta="[]", simplified]
  run_shape.commit_failed[where meta="[e]" for e, simplified]
  run_shape.success[where meta="[]", simplified]
  run_shape.success[where meta="[e]" for e, simplified]

lemma run_summary_shape:
  "run_shape env i reg st (fst (run_summary env i reg dados st))
     (snd (run_summary env i reg dados st))"
proof (cases "fst (baixar_imagens_projeto env i st)")
  case (Inl e)
  then show ?thesis
    by (simp add: run_summary_def abort_events_def shape_rules)
next
  case (Inr dn)
  obtain d n where dn: "dn = (d, n)" by (cases dn)
  note B = Inr[unfolded dn]
  show ?thesis
  proof (cases "n = 0")
    case True
    with B show ?thesis
      by (simp add: run_summary_def shape_rules)
  next
    case n0: False
    show ?thesis
    proof (cases "\<exists>t. fst (processar_imagens_webodm env d i st) = (Some t, True)")
      case False
      with B n0 have "run_shape env i reg st False
         [Baixar_imagens_projeto i, Processar_imagens_webodm d i,
          Atualizar_registro_requisicao reg None (Some ''Erro: Falha ao iniciar processamento'')
            None (returned (atualizar_registro_requisicao env reg None
                     (Some ''Erro: Falha ao iniciar processamento'') None)),
          Enviar_webhook i ''erro'' None (Some ''Falha ao iniciar processamento no WebODM''),
          Limpar_arquivos_temporarios i]"
        by (rule run_shape.submit_failed)
      with B n0 False show ?thesis
        by (cases "fst (processar_imagens_webodm env d i st)")
           (auto simp add: run_summary_def abort_events_def split: option.splits bool.splits)
    next
      case True
      then obtain t where P: "fst (processar_imagens_webodm env d i st) = (Some t, True)" ..
      show ?thesis
      proof (cases "\<exists>status. fst (aguardar_processamento env t st) = (status, True)")
        case False
        then obtain status where A: "fst (aguardar_processamento env t st) = (status, False)"
          by (cases "fst (aguardar_processamento env t st)") auto
        from B n0 P A show ?thesis
          by (simp add: run_summary_def abort_events_def Let_def shape_rules)
      next
        case True
        then obtain status where A: "fst (aguardar_processamento env t st) = (status, True)" ..
        show ?thesis
        proof (cases "\<exists>c. fst (baixar_resultados env t i st) = (Some c, True) \<and> c \<noteq> []")
          case False
          with B n0 P A have "run_shape env i reg st False
             [Baixar_imagens_projeto i, Processar_imagens_webodm d i,
              Atualizar_registro_requisicao reg (Some (uuid t)) None None
                (returned (atualizar_registro_requisicao env reg (Some (uuid t)) None None)),
              Aguardar_processamento t, Baixar_resultados t i,
              Atualizar_registro_requisicao reg None (Some ''Erro: Falha ao baixar resultados'')
                None (returned (atualizar_registro_requisicao env reg None
                         (Some ''Erro: Falha ao baixar resultados'') None)),
              Enviar_webhook i ''erro'' None (Some ''Falha ao baixar resultados''),
              Limpar_arquivos_temporarios i]"
            by (rule run_shape.result_missing)
          with B n0 P A False show ?thesis
            by (cases "fst (baixar_resultados env t i st)")
               (auto simp add: run_summary_def abort_events_def Let_def rets
                  split: option.splits bool.splits)
        next
          case True
          then obtain c where R: "fst (baixar_resultados env t i st) = (Some c, True)"
            and c: "c \<noteq> []" by blast
          show ?thesis
          proof (cases "\<exists>u. fst (enviar_ortomosaico_para_bucket env i c st) = (Some u, True)
                            \<and> u \<noteq> []")
            case False
            with B n0 P A R c have "run_shape env i reg st False
               [Baixar_imagens_projeto i, Processar_imagens_webodm d i,
                Atualizar_registro_requisicao reg (Some (uuid t)) None None
                  (returned (atualizar_registro_requisicao env reg (Some (uuid t)) None None)),
                Aguardar_processamento t, Baixar_resultados t i, Gerar_metadados i,
                Enviar_ortomosaico_para_bucket i c,
                Atualizar_registro_requisicao reg None (Some ''Erro: Falha ao enviar ortomosaico'')
                  None (returned (atualizar_registro_requisicao env reg None
                           (Some ''Erro: Falha ao enviar ortomosaico'') None)),
                Enviar_webhook i ''erro'' None (Some ''Falha ao enviar ortomosaico para o bucket''),
                Limpar_arquivos_temporarios i]"
              by (rule run_shape.publish_failed)
            with B n0 P A R c False show ?thesis
              by (cases "fst (enviar_ortomosaico_para_bucket env i c st)")
                 (auto simp add: run_summary_def abort_events_def Let_def rets
                    split: option.splits bool.splits)
          next
            case True
            then obtain u where
              E: "fst (enviar_ortomosaico_para_bucket env i c st) = (Some u, True)"
              and u: "u \<noteq> []" by blast
            from B n0 P A R c E u show ?thesis
              by (cases "fst (atualizar_registro_requisicao env reg None (Some ''Sucesso'')
                                (Some u) st)";
                  cases "fst (gerar_metadados env i d c t (ortomosaico_preset st) n dados st)")
                 (auto simp add: run_summary_def Let_def shape_rules)
          qed
        qed
      qed
    qed
  qed
qed

lemma run_has_shape:
  "run_shape env i reg st (fst (processar_projeto env i reg dados st))
     (run_events env i reg dados st)"
  by (simp add: run_summary_fst run_events_summary run_summary_shape)

subsection \<open>Runs in the example environments\<close>

lemmas list_simps = suffix_Cons sublist_Cons_right prefix_Cons

lemmas handler_defs = baixar_imagens_projeto_def processar_imagens_webodm_def
  aguardar_processamento_def baixar_resultados_def gerar_metadados_def
  enviar_ortomosaico_para_bucket_def atualizar_result get_project_temp_dir_def
  path_join_def startswith_def endswith_def supported_extensions_def
  splitext_ext_def basename_def dirname_def lower_def lower_char_def is_image_def dict_get_def
  update_data_def abort_events_def returned_def log_defs criar_pasta_def

lemma run_ok_events:
  "fst (processar_projeto env_ok ''P1'' ''rec-1'' [] st_init) \<and>
   run_events env_ok ''P1'' ''rec-1'' [] st_init =
   [Baixar_imagens_projeto ''P1'', Processar_imagens_webodm ''/app/temp/P1'' ''P1'',
    Atualizar_registro_requisicao ''rec-1'' (Some ''uuid-1'') None None True,
    Aguardar_processamento (Task ''uuid-1''),
    Baixar_resultados (Task ''uuid-1'') ''P1'', Gerar_metadados ''P1'',
    Enviar_ortomosaico_para_bucket ''P1'' ''/app/temp/P1/resultados/odm_orthophoto.tif'',
    Enviar_metadados_para_bucket ''P1'' ''/app/temp/P1/resultados/metadados.txt'',
    Atualizar_registro_requisicao ''rec-1'' None (Some ''Sucesso'')
      (Some ''https://store.example/Ortomosaicos/P1/odm_ortophoto.tif'') True,
    Enviar_webhook ''P1'' ''sucesso''
      (Some ''https://store.example/Ortomosaicos/P1/odm_ortophoto.tif'') None,
    Limpar_arquivos_temporarios ''P1'']"
  by (simp add: run_events_summary run_summary_fst run_summary_def handler_defs env_ok_def
        st_init_def preset_padrao_def Let_def)

lemma run_no_images_events:
  "\<not> fst (processar_projeto env_no_images ''P1'' ''rec-1'' [] st_init) \<and>
   run_events env_no_images ''P1'' ''rec-1'' [] st_init =
   [Baixar_imagens_projeto ''P1'',
    Atualizar_registro_requisicao ''rec-1'' None (Some ''Erro: Nenhuma imagem encontrada'')
      None True,
    Enviar_webhook ''P1'' ''erro'' None (Some ''Nenhuma imagem encontrada'')]"
  by (simp add: run_events_summary run_summary_fst run_summary_def handler_defs env_ok_def
        env_no_images_def st_init_def preset_padrao_def Let_def)


lemma run_nonfatal_events:
  "fst (processar_projeto env_nonfatal ''P1'' ''rec-1'' [] st_init) \<and>
   run_events env_nonfatal ''P1'' ''rec-1'' [] st_init =
   [Baixar_imagens_projeto ''P1'', Processar_imagens_webodm ''/app/temp/P1'' ''P1'',
    Atualizar_registro_requisicao ''rec-1'' (Some ''uuid-1'') None None False,
    Aguardar_processamento (Task ''uuid-1''),
    Baixar_resultados (Task ''uuid-1'') ''P1'', Gerar_metadados ''P1'',
    Enviar_ortomosaico_para_bucket ''P1'' ''/app/temp/P1/resultados/odm_orthophoto.tif'',
    Enviar_metadados_para_bucket ''P1'' ''/app/temp/P1/resultados/metadados.txt'',
    Atualizar_registro_requisicao ''rec-1'' None (Some ''Sucesso'')
      (Some ''https://store.example/Ortomosaicos/P1/odm_ortophoto.tif'') True,
    Enviar_webhook ''P1'' ''sucesso''
      (Some ''https://store.example/Ortomosaicos/P1/odm_ortophoto.tif'') None,
    Limpar_arquivos_temporarios ''P1'']"
  by (simp add: run_events_summary run_summary_fst run_summary_def handler_defs env_ok_def
        env_nonfatal_def st_init_def preset_padrao_def Let_def)

lemma metadata_upload_fails_in_env_nonfatal:
  "\<not> fst (enviar_metadados_para_bucket env_nonfatal ''P1''
            ''/app/temp/P1/resultados/metadados.txt'' st)"
  by (simp add: enviar_metadados_para_bucket_def log_defs env_nonfatal_def env_ok_def Let_def)

lemma run_no_metadata_events:
  "fst (processar_projeto env_no_metadata ''P1'' ''rec-1'' [] st_init) \<and>
   fst (gerar_metadados env_no_metadata ''P1'' ''/app/temp/P1''
          ''/app/temp/P1/resultados/odm_orthophoto.tif'' (Task ''uuid-1'') opcoes 2 [] st) = None \<and>
   run_events env_no_metadata ''P1'' ''rec-1'' [] st_init =
   [Baixar_imagens_projeto ''P1'', Processar_imagens_webodm ''/app/temp/P1'' ''P1'',
    Atualizar_registro_requisicao ''rec-1'' (Some ''uuid-1'') None None True,
    Aguardar_processamento (Task ''uuid-1''),
    Baixar_resultados (Task ''uuid-1'') ''P1'', Gerar_metadados ''P1'',
    Enviar_ortomosaico_para_bucket ''P1'' ''/app/temp/P1/resultados/odm_orthophoto.tif'',
    Atualizar_registro_requisicao ''rec-1'' None (Some ''Sucesso'')
      (Some ''https://store.example/Ortomosaicos/P1/odm_ortophoto.tif'') True,
    Enviar_webhook ''P1'' ''sucesso''
      (Some ''https://store.example/Ortomosaicos/P1/odm_ortophoto.tif'') None,
    Limpar_arquivos_temporarios ''P1'']"
  by (simp add: run_events_summary run_summary_fst run_summary_def handler_defs env_ok_def
        env_no_metadata_def st_init_def preset_padrao_def Let_def)

subsection \<open>Order of ledger commit and notifications\<close>

text \<open>
  Claim C1. The success notification is sent if and only if the final ledger update,
  the one that sets status \<open>Sucesso\<close> and the URL of the mosaic, returned \<open>True\<close>, and
  it is sent right after that update: a run that returns \<open>True\<close> ends with this
  update, the success webhook with the same URL, and the cleanup, and has no other
  success webhook and no other update to \<open>Sucesso\<close>; a run that returns \<open>False\<close> (every
  abort) has no success webhook and no update to \<open>Sucesso\<close> that returned \<open>True\<close>.
\<close>

theorem success_notification_follows_commit:
  "(fst (processar_projeto env i reg dados st) \<longrightarrow>
      (\<exists>u. suffix [Atualizar_registro_requisicao reg None (Some ''Sucesso'') (Some u) True,
                   Enviar_webhook i ''sucesso'' (Some u) None,
                   Limpar_arquivos_temporarios i]
              (run_events env i reg dados st) \<and>
           filter is_success_webhook (run_events env i reg dados st) =
             [Enviar_webhook i ''sucesso'' (Some u) None] \<and>
           filter is_success_commit (run_events env i reg dados st) =
             [Atualizar_registro_requisicao reg None (Some ''Sucesso'') (Some u) True])) \<and>
   (\<not> fst (processar_projeto env i reg dados st) \<longrightarrow>
      filter is_success_webhook (run_events env i reg dados st) = [] \<and>
      (\<forall>a c. Atualizar_registro_requisicao reg a (Some ''Sucesso'') c True
               \<notin> set (run_events env i reg dados st)))"
  using run_has_shape[of env i reg st dados]
  by cases (auto simp add: list_simps)

theorem success_notification_follows_commit_witness:
  "fst (processar_projeto env_ok ''P1'' ''rec-1'' [] st_init) \<and>
   (\<exists>u. suffix [Atualizar_registro_requisicao ''rec-1'' None (Some ''Sucesso'') (Some u) True,
                Enviar_webhook ''P1'' ''sucesso'' (Some u) None,
                Limpar_arquivos_temporarios ''P1'']
           (run_events env_ok ''P1'' ''rec-1'' [] st_init)) \<and>
   \<not> fst (processar_projeto env_no_images ''P1'' ''rec-1'' [] st_init) \<and>
   filter is_success_webhook (run_events env_no_images ''P1'' ''rec-1'' [] st_init) = []"
proof -
  have a: "fst (processar_projeto env_ok ''P1'' ''rec-1'' [] st_init)"
    using run_ok_events by simp
  have b: "\<not> fst (processar_projeto env_no_images ''P1'' ''rec-1'' [] st_init)"
    using run_no_images_events by simp
  from a b success_notification_follows_commit[of env_ok "''P1''" "''rec-1''" "[]" st_init]
       success_notification_follows_commit[of env_no_images "''P1''" "''rec-1''" "[]" st_init]
  show ?thesis by blast
qed




subsection \<open>Cleanup\<close>

text \<open>On every exit but the one for zero images the cleanup is called once, as the last
  call of the run; on the exit for zero images it is not called.\<close>

lemma cleanup_missing_only_without_images:
  "(filter is_cleanup (run_events env i reg dados st) = [Limpar_arquivos_temporarios i] \<and>
    last (run_events env i reg dados st) = Limpar_arquivos_temporarios i \<and>
    \<not> (\<exists>d. fst (baixar_imagens_projeto env i st) = Inr (d, 0))) \<or>
   (filter is_cleanup (run_events env i reg dados st) = [] \<and>
    (\<exists>d. fst (baixar_imagens_projeto env i st) = Inr (d, 0)))"
  using run_has_shape[of env i reg st dados]
  by cases auto


text \<open>
  Claim C2 holds on every exit except the one for zero images (lemma above): there
  \<^verbatim>\<open>processar_projeto\<close> returns at line 112 without calling
  \<^verbatim>\<open>limpar_arquivos_temporarios\<close>, although \<^verbatim>\<open>baixar_imagens_projeto\<close> has created the
  project's scratch directory: whenever \<^verbatim>\<open>baixar_imagens_projeto\<close> returns zero
  images, the run returns \<open>False\<close> and makes no cleanup call.
\<close>

theorem zero_images_exit_skips_cleanup:
  "fst (baixar_imagens_projeto env i st) = Inr (d, 0) \<longrightarrow>
     \<not> fst (processar_projeto env i reg dados st) \<and>
     filter is_cleanup (run_events env i reg dados st) = []"
  using run_has_shape[of env i reg st dados]
  by cases auto

theorem zero_images_exit_skips_cleanup_witness:
  "fst (baixar_imagens_projeto env_no_images ''P1'' st_init) = Inr (''/app/temp/P1'', 0) \<and>
   \<not> fst (processar_projeto env_no_images ''P1'' ''rec-1'' [] st_init) \<and>
   filter is_cleanup (run_events env_no_images ''P1'' ''rec-1'' [] st_init) = []"
proof -
  have "fst (baixar_imagens_projeto env_no_images ''P1'' st_init) = Inr (''/app/temp/P1'', 0)"
    by (simp add: handler_defs env_ok_def env_no_images_def st_init_def preset_padrao_def
          Let_def)
  with zero_images_exit_skips_cleanup
         [of env_no_images "''P1''" st_init "''/app/temp/P1''" "''rec-1''" "[]"]
  show ?thesis by simp
qed

subsection \<open>No input images\<close>

lemma webhook_frame:
  "node_tasks (snd (enviar_webhook env i s u m st)) = node_tasks st \<and>
   db_log (snd (enviar_webhook env i s u m st)) = db_log st \<and>
   requisicoes (snd (enviar_webhook env i s u m st)) = requisicoes st"
  by (simp add: enviar_webhook_def log_defs webhook_lookup_frame Let_def
           split: option.splits sum.splits)

lemma atualizar_node_tasks:
  "node_tasks (snd (atualizar_registro_requisicao env i a b c st)) = node_tasks st"
  by (simp add: atualizar_registro_requisicao_def log_defs Let_def split: option.splits)

lemma no_input_state:
  "fst (baixar_imagens_projeto env i st) = Inr (d, 0) \<Longrightarrow>
   snd (processar_projeto env i reg dados st) =
     snd (enviar_webhook env i ''erro'' None (Some ''Nenhuma imagem encontrada'')
       (snd (atualizar_registro_requisicao env reg None
               (Some ''Erro: Nenhuma imagem encontrada'') None
               (logger ERROR ''main.py'' 109 (snd (baixar_imagens_projeto env i st))))))"
  by (simp add: processar_projeto_def case_prod_beta)

lemma baixar_zero:
  "create_client env = None \<Longrightarrow> makedirs env (path_join (TEMP_DIR env) i) = None \<Longrightarrow>
   storage_list env i = Inr response \<Longrightarrow>
   valid_files (supported_extensions (ortomosaico_preset st)) response = Inr [] \<Longrightarrow>
   fst (baixar_imagens_projeto env i st) = Inr (path_join (TEMP_DIR env) i, 0)"
  by (simp add: baixar_imagens_projeto_def get_project_temp_dir_def log_defs Let_def)

text \<open>
  Claim C4. When the listing of the project's folder in bucket \<open>uploads\<close> has no
  object with a supported image extension, the run returns \<open>False\<close>; its calls are
  the download, the ledger update with status \<open>Erro: Nenhuma imagem encontrada\<close> and
  one error notification; that status is what is sent to the table; and
  \<^verbatim>\<open>processar_imagens_webodm\<close> is not called, so no task is created on the node.
\<close>

theorem zero_images_aborts_without_submission:
  "create_client env = None \<and> makedirs env (path_join (TEMP_DIR env) i) = None \<and>
   storage_list env i = Inr response \<and>
   valid_files (supported_extensions (ortomosaico_preset st)) response = Inr [] \<longrightarrow>
     \<not> fst (processar_projeto env i reg dados st) \<and>
     run_events env i reg dados st =
       [Baixar_imagens_projeto i,
        Atualizar_registro_requisicao reg None (Some ''Erro: Nenhuma imagem encontrada'') None
          (table_update env reg [(''status_orto'', ''Erro: Nenhuma imagem encontrada'')] = None),
        Enviar_webhook i ''erro'' None (Some ''Nenhuma imagem encontrada'')] \<and>
     db_log (snd (processar_projeto env i reg dados st)) =
       db_log st @ [(reg, [(''status_orto'', ''Erro: Nenhuma imagem encontrada'')])] \<and>
     node_tasks (snd (processar_projeto env i reg dados st)) = node_tasks st"
proof (intro impI, elim conjE)
  assume a: "create_client env = None" "makedirs env (path_join (TEMP_DIR env) i) = None"
    "storage_list env i = Inr response"
    "valid_files (supported_extensions (ortomosaico_preset st)) response = Inr []"
  then have z: "fst (baixar_imagens_projeto env i st) = Inr (path_join (TEMP_DIR env) i, 0)"
    by (rule baixar_zero)
  have r: "\<not> fst (processar_projeto env i reg dados st)"
    using z by (simp add: run_summary_fst run_summary_def)
  have e: "run_events env i reg dados st =
       [Baixar_imagens_projeto i,
        Atualizar_registro_requisicao reg None (Some ''Erro: Nenhuma imagem encontrada'') None
          (table_update env reg [(''status_orto'', ''Erro: Nenhuma imagem encontrada'')] = None),
        Enviar_webhook i ''erro'' None (Some ''Nenhuma imagem encontrada'')]"
    using z a(1) by (simp add: run_events_summary run_summary_def atualizar_result update_data_def)
  have s: "db_log (snd (processar_projeto env i reg dados st)) =
       db_log st @ [(reg, [(''status_orto'', ''Erro: Nenhuma imagem encontrada'')])] \<and>
     node_tasks (snd (processar_projeto env i reg dados st)) = node_tasks st"
    using a(1)
    by (simp add: no_input_state[OF z] webhook_frame atualizar_node_tasks atualizar_db_log
          update_data_def logger_frame baixar_frame)
  from r e s show "\<not> fst (processar_projeto env i reg dados st) \<and>
     run_events env i reg dados st =
       [Baixar_imagens_projeto i,
        Atualizar_registro_requisicao reg None (Some ''Erro: Nenhuma imagem encontrada'') None
          (table_update env reg [(''status_orto'', ''Erro: Nenhuma imagem encontrada'')] = None),
        Enviar_webhook i ''erro'' None (Some ''Nenhuma imagem encontrada'')] \<and>
     db_log (snd (processar_projeto env i reg dados st)) =
       db_log st @ [(reg, [(''status_orto'', ''Erro: Nenhuma imagem encontrada'')])] \<and>
     node_tasks (snd (processar_projeto env i reg dados st)) = node_tasks st"
    by simp
qed

theorem zero_images_aborts_without_submission_witness:
  "valid_files (supported_extensions (ortomosaico_preset st_init)) [''notes.txt'', ''readme.md'']
     = Inr [] \<and>
   \<not> fst (processar_projeto env_no_images ''P1'' ''rec-1'' [] st_init) \<and>
   node_tasks (snd (processar_projeto env_no_images ''P1'' ''rec-1'' [] st_init)) = [] \<and>
   db_log (snd (processar_projeto env_no_images ''P1'' ''rec-1'' [] st_init)) =
     [(''rec-1'', [(''status_orto'', ''Erro: Nenhuma imagem encontrada'')])]"
proof -
  have v: "valid_files (supported_extensions (ortomosaico_preset st_init))
             [''notes.txt'', ''readme.md''] = Inr []"
    by (simp add: handler_defs st_init_def preset_padrao_def)
  have a: "create_client env_no_images = None \<and>
           makedirs env_no_images (path_join (TEMP_DIR env_no_images) ''P1'') = None \<and>
           storage_list env_no_images ''P1'' = Inr [''notes.txt'', ''readme.md'']"
    by (simp add: env_no_images_def env_ok_def)
  have n: "node_tasks st_init = [] \<and> db_log st_init = []"
    by (simp add: st_init_def)
  from v a n zero_images_aborts_without_submission[of env_no_images "''P1''" "[''notes.txt'', ''readme.md'']" st_init "''rec-1''" "[]"]
  show ?thesis by simp
qed

subsection \<open>Waiting for the remote job\<close>





subsection \<open>Publishing the mosaic\<close>





subsection \<open>The process-wide preset\<close>

lemma processar_reaches_bundle:
  assumes "node_connect env = None" "listdir env d = Inr es" "imagens_de d es \<noteq> []"
    "py_float env (dict_get (ortomosaico_preset st) ''orthophoto-resolution'' (PInt 5)) = Inr r"
  shows "ortomosaico_preset (snd (processar_imagens_webodm env d i st)) =
           (ortomosaico_preset st)
             (''name'' \<mapsto> PStr (''Projeto_'' @ i),
              ''orthophoto-resolution'' \<mapsto> PFloat r,
              ''dsm'' \<mapsto> dict_get (ortomosaico_preset st) ''dsm'' (PBool False),
              ''dtm'' \<mapsto> dict_get (ortomosaico_preset st) ''dtm'' (PBool False),
              ''gcp'' \<mapsto> PBool False,
              ''projection'' \<mapsto> PStr ''EPSG:4326'')"
    and "node_tasks (snd (processar_imagens_webodm env d i st)) =
           node_tasks st @
             [(imagens_de d es, ortomosaico_preset (snd (processar_imagens_webodm env d i st)))]"
  using assms
  by (auto simp add: processar_imagens_webodm_def imagens_de_def log_defs Let_def
        dict_get_def fun_eq_iff split: sum.splits)


lemma gerar_metadados_effect:
  "metadados (snd (gerar_metadados env i d c t opcoes n dados st)) =
     (if fst (gerar_metadados env i d c t opcoes n dados st) = None then metadados st
      else Some (parametros_relatorio opcoes))"
  by (simp add: gerar_metadados_def log_defs Let_def split: option.splits sum.splits)

text \<open>
  Claim C9. \<^verbatim>\<open>processar_imagens_webodm\<close> writes the bundle into the process-wide
  preset: after a call that gets as far as the options, the preset is the old preset
  with \<open>name\<close>, \<open>orthophoto-resolution\<close>, \<open>dsm\<close>, \<open>dtm\<close>, \<open>gcp\<close> and \<open>projection\<close> set,
  and the bundle sent to the node is this preset. A second call therefore starts from
  the keys the first one wrote: its bundle is the first bundle with only \<open>name\<close>
  replaced. Metadata rendered from the preset after the first call lists the first
  call's \<open>name\<close> and \<open>projection\<close>.
\<close>

theorem submission_mutates_shared_preset:
  "node_connect env1 = None \<and> listdir env1 d1 = Inr es1 \<and> imagens_de d1 es1 \<noteq> [] \<and>
   py_float env1 (dict_get (ortomosaico_preset st0) ''orthophoto-resolution'' (PInt 5)) = Inr r \<and>
   st1 = snd (processar_imagens_webodm env1 d1 i1 st0) \<and>
   node_connect env2 = None \<and> listdir env2 d2 = Inr es2 \<and> imagens_de d2 es2 \<noteq> [] \<and>
   st2 = snd (processar_imagens_webodm env2 d2 i2 st1) \<longrightarrow>
     ortomosaico_preset st1 =
       (ortomosaico_preset st0)
         (''name'' \<mapsto> PStr (''Projeto_'' @ i1),
          ''orthophoto-resolution'' \<mapsto> PFloat r,
          ''dsm'' \<mapsto> dict_get (ortomosaico_preset st0) ''dsm'' (PBool False),
          ''dtm'' \<mapsto> dict_get (ortomosaico_preset st0) ''dtm'' (PBool False),
          ''gcp'' \<mapsto> PBool False,
          ''projection'' \<mapsto> PStr ''EPSG:4326'') \<and>
     node_tasks st1 = node_tasks st0 @ [(imagens_de d1 es1, ortomosaico_preset st1)] \<and>
     ortomosaico_preset st2 = (ortomosaico_preset st1)(''name'' \<mapsto> PStr (''Projeto_'' @ i2)) \<and>
     node_tasks st2 = node_tasks st1 @ [(imagens_de d2 es2, ortomosaico_preset st2)] \<and>
     (fst (gerar_metadados env i d c t (ortomosaico_preset st1) n dados st) \<noteq> None \<longrightarrow>
        metadados (snd (gerar_metadados env i d c t (ortomosaico_preset st1) n dados st)) =
          Some (parametros_relatorio (ortomosaico_preset st1)) \<and>
        parametros_relatorio (ortomosaico_preset st1) ''name'' =
          Some (PStr (''Projeto_'' @ i1)) \<and>
        parametros_relatorio (ortomosaico_preset st1) ''projection'' =
          Some (PStr ''EPSG:4326''))"
proof (intro impI, elim conjE)
  assume a1: "node_connect env1 = None" "listdir env1 d1 = Inr es1" "imagens_de d1 es1 \<noteq> []"
    "py_float env1 (dict_get (ortomosaico_preset st0) ''orthophoto-resolution'' (PInt 5)) = Inr r"
    and s1: "st1 = snd (processar_imagens_webodm env1 d1 i1 st0)"
    and a2: "node_connect env2 = None" "listdir env2 d2 = Inr es2" "imagens_de d2 es2 \<noteq> []"
    and s2: "st2 = snd (processar_imagens_webodm env2 d2 i2 st1)"
  have p1: "ortomosaico_preset st1 =
       (ortomosaico_preset st0)
         (''name'' \<mapsto> PStr (''Projeto_'' @ i1),
          ''orthophoto-resolution'' \<mapsto> PFloat r,
          ''dsm'' \<mapsto> dict_get (ortomosaico_preset st0) ''dsm'' (PBool False),
          ''dtm'' \<mapsto> dict_get (ortomosaico_preset st0) ''dtm'' (PBool False),
          ''gcp'' \<mapsto> PBool False,
          ''projection'' \<mapsto> PStr ''EPSG:4326'')"
    unfolding s1 using a1 by (rule processar_reaches_bundle(1))
  have t1: "node_tasks st1 = node_tasks st0 @ [(imagens_de d1 es1, ortomosaico_preset st1)]"
    unfolding s1 using a1 by (rule processar_reaches_bundle(2))
  have f2: "py_float env2 (dict_get (ortomosaico_preset st1) ''orthophoto-resolution'' (PInt 5))
              = Inr r"
    by (simp add: p1 dict_get_def)
  have p2': "ortomosaico_preset st2 =
       (ortomosaico_preset st1)
         (''name'' \<mapsto> PStr (''Projeto_'' @ i2),
          ''orthophoto-resolution'' \<mapsto> PFloat r,
          ''dsm'' \<mapsto> dict_get (ortomosaico_preset st1) ''dsm'' (PBool False),
          ''dtm'' \<mapsto> dict_get (ortomosaico_preset st1) ''dtm'' (PBool False),
          ''gcp'' \<mapsto> PBool False,
          ''projection'' \<mapsto> PStr ''EPSG:4326'')"
    unfolding s2 using a2 f2 by (rule processar_reaches_bundle(1))
  have p2: "ortomosaico_preset st2 =
              (ortomosaico_preset st1)(''name'' \<mapsto> PStr (''Projeto_'' @ i2))"
    unfolding p2' by (auto simp add: p1 dict_get_def fun_eq_iff)
  have t2: "node_tasks st2 = node_tasks st1 @ [(imagens_de d2 es2, ortomosaico_preset st2)]"
    unfolding s2 using a2 f2 by (rule processar_reaches_bundle(2))
  have m: "parametros_relatorio (ortomosaico_preset st1) ''name'' =
             Some (PStr (''Projeto_'' @ i1)) \<and>
           parametros_relatorio (ortomosaico_preset st1) ''projection'' =
             Some (PStr ''EPSG:4326'')"
    by (simp add: p1 parametros_relatorio_def startswith_def)
  from p1 t1 p2 t2 m
  show "ortomosaico_preset st1 =
       (ortomosaico_preset st0)
         (''name'' \<mapsto> PStr (''Projeto_'' @ i1),
          ''orthophoto-resolution'' \<mapsto> PFloat r,
          ''dsm'' \<mapsto> dict_get (ortomosaico_preset st0) ''dsm'' (PBool False),
          ''dtm'' \<mapsto> dict_get (ortomosaico_preset st0) ''dtm'' (PBool False),
          ''gcp'' \<mapsto> PBool False,
          ''projection'' \<mapsto> PStr ''EPSG:4326'') \<and>
     node_tasks st1 = node_tasks st0 @ [(imagens_de d1 es1, ortomosaico_preset st1)] \<and>
     ortomosaico_preset st2 = (ortomosaico_preset st1)(''name'' \<mapsto> PStr (''Projeto_'' @ i2)) \<and>
     node_tasks st2 = node_tasks st1 @ [(imagens_de d2 es2, ortomosaico_preset st2)] \<and>
     (fst (gerar_metadados env i d c t (ortomosaico_preset st1) n dados st) \<noteq> None \<longrightarrow>
        metadados (snd (gerar_metadados env i d c t (ortomosaico_preset st1) n dados st)) =
          Some (parametros_relatorio (ortomosaico_preset st1)) \<and>
        parametros_relatorio (ortomosaico_preset st1) ''name'' =
          Some (PStr (''Projeto_'' @ i1)) \<and>
        parametros_relatorio (ortomosaico_preset st1) ''projection'' =
          Some (PStr ''EPSG:4326''))"
    by (simp add: gerar_metadados_effect)
qed

theorem submission_mutates_shared_preset_witness:
  "preset_padrao ''name'' = None \<and> preset_padrao ''projection'' = None \<and>
   ortomosaico_preset (snd (processar_imagens_webodm env_ok ''/app/temp/P1'' ''P1'' st_init))
     ''name'' = Some (PStr ''Projeto_P1'') \<and>
   ortomosaico_preset
     (snd (processar_imagens_webodm env_ok ''/app/temp/P2'' ''P2''
        (snd (processar_imagens_webodm env_ok ''/app/temp/P1'' ''P1'' st_init)))) =
   (ortomosaico_preset (snd (processar_imagens_webodm env_ok ''/app/temp/P1'' ''P1'' st_init)))
     (''name'' \<mapsto> PStr ''Projeto_P2'')"
proof -
  have a: "node_connect env_ok = None \<and>
           listdir env_ok ''/app/temp/P1'' = Inr [(''a.jpg'', True), (''b.JPG'', True)] \<and>
           listdir env_ok ''/app/temp/P2'' = Inr [(''a.jpg'', True), (''b.JPG'', True)]"
    by (simp add: env_ok_def)
  have b: "imagens_de ''/app/temp/P1'' [(''a.jpg'', True), (''b.JPG'', True)] \<noteq> [] \<and>
           imagens_de ''/app/temp/P2'' [(''a.jpg'', True), (''b.JPG'', True)] \<noteq> []"
    by (simp add: imagens_de_def is_image_def lower_def lower_char_def endswith_def)
  have c: "py_float env_ok (dict_get (ortomosaico_preset st_init) ''orthophoto-resolution''
             (PInt 5)) = Inr 5"
    by (simp add: st_init_def preset_padrao_def dict_get_def)
  have d: "preset_padrao ''name'' = None \<and> preset_padrao ''projection'' = None"
    by (simp add: preset_padrao_def)
  from a b c
    submission_mutates_shared_preset[of env_ok "''/app/temp/P1''" "[(''a.jpg'', True), (''b.JPG'', True)]" st_init 5
          "snd (processar_imagens_webodm env_ok ''/app/temp/P1'' ''P1'' st_init)" "''P1''"
          env_ok "''/app/temp/P2''" "[(''a.jpg'', True), (''b.JPG'', True)]"
          "snd (processar_imagens_webodm env_ok ''/app/temp/P2'' ''P2''
             (snd (processar_imagens_webodm env_ok ''/app/temp/P1'' ''P1'' st_init)))" "''P2''"]
  have "ortomosaico_preset (snd (processar_imagens_webodm env_ok ''/app/temp/P1'' ''P1'' st_init))
          ''name'' = Some (PStr ''Projeto_P1'') \<and>
        ortomosaico_preset
          (snd (processar_imagens_webodm env_ok ''/app/temp/P2'' ''P2''
             (snd (processar_imagens_webodm env_ok ''/app/temp/P1'' ''P1'' st_init)))) =
        (ortomosaico_preset (snd (processar_imagens_webodm env_ok ''/app/temp/P1'' ''P1'' st_init)))
          (''name'' \<mapsto> PStr ''Projeto_P2'')"
    by simp
  with d show ?thesis by simp
qed

subsection \<open>Fatal and non-fatal failures\<close>

lemma log_extends_refl: "log_extends st st"
  by (simp add: log_extends_def)

lemma log_extends_trans: "log_extends a b \<Longrightarrow> log_extends b c \<Longrightarrow> log_extends a c"
  by (auto simp add: log_extends_def)

lemma logs_record_then: "logs_record r a b \<Longrightarrow> log_extends b c \<Longrightarrow> logs_record r a c"
  by (auto simp add: log_extends_def logs_record_def prefix_def)

lemma logs_record_after: "log_extends a b \<Longrightarrow> logs_record r b c \<Longrightarrow> logs_record r a c"
  by (auto simp add: log_extends_def logs_record_def prefix_def)

lemma logger_extends: "log_extends st (logger lvl f n st)"
  by (simp add: log_extends_def logger_def)

lemma logger_logs: "logs_record (lvl, f, n) st (logger lvl f n st)"
  by (simp add: logs_record_def logger_def)

lemma atualizar_extends:
  "log_extends st (snd (atualizar_registro_requisicao env i a b c st))"
  by (simp add: log_extends_def atualizar_registro_requisicao_def log_defs Let_def
        split: option.splits)

lemma atualizar_logs:
  "\<not> fst (atualizar_registro_requisicao env i a b c st0) \<Longrightarrow> update_data a b c \<noteq> [] \<Longrightarrow>
   logs_record (ERROR, ''handlers.py'', 152) st
     (snd (atualizar_registro_requisicao env i a b c st))"
  by (auto simp add: logs_record_def atualizar_registro_requisicao_def log_defs Let_def
        split: option.splits)

lemma download_loop_extends:
  "log_extends st (snd (download_loop env i d files c st))"
proof (induction files arbitrary: c st)
  case Nil
  show ?case by (simp add: log_extends_refl)
next
  case (Cons name files)
  show ?case
    using Cons[of st "Suc c"] Cons[of "logger ERROR ''handlers.py'' 209 st" c]
      log_extends_trans[OF logger_extends]
    by (auto split: option.splits)
qed

lemma baixar_extends: "log_extends st (snd (baixar_imagens_projeto env i st))"
  using download_loop_extends[of st env i _ _ 0]
  by (auto simp add: log_extends_def baixar_imagens_projeto_def log_defs Let_def case_prod_beta
        split: option.splits sum.splits)

lemma processar_extends: "log_extends st (snd (processar_imagens_webodm env d i st))"
  by (simp add: log_extends_def processar_imagens_webodm_def log_defs Let_def
        split: option.splits sum.splits)

lemma aguardar_extends: "log_extends st (snd (aguardar_processamento env t st))"
  by (simp add: log_extends_def aguardar_processamento_def log_defs Let_def
        split: option.splits sum.splits)

lemma resultados_extends: "log_extends st (snd (baixar_resultados env t i st))"
  by (simp add: log_extends_def baixar_resultados_def log_defs Let_def
        split: option.splits sum.splits)

lemma metadados_extends: "log_extends st (snd (gerar_metadados env i d c t opc n dados st))"
  by (simp add: log_extends_def gerar_metadados_def log_defs Let_def
        split: option.splits sum.splits)

lemma metadados_logs:
  "fst (gerar_metadados env i d c t opc0 n0 dados0 st0) = None \<Longrightarrow>
   logs_record (ERROR, ''handlers.py'', 572) st
     (snd (gerar_metadados env i d c t opc n dados st))"
  by (auto simp add: logs_record_def gerar_metadados_def log_defs Let_def
        split: option.splits sum.splits)

lemma criar_pasta_extends: "log_extends st (criar_pasta env i st)"
  by (simp add: log_extends_def criar_pasta_def log_defs Let_def split: option.splits)

lemma enviar_orto_extends:
  "log_extends st (snd (enviar_ortomosaico_para_bucket env i c st))"
  using criar_pasta_extends[of st env i]
  by (auto simp add: log_extends_def enviar_ortomosaico_para_bucket_def log_defs Let_def
        split: option.splits sum.splits)

lemma enviar_meta_extends:
  "log_extends st (snd (enviar_metadados_para_bucket env i c st))"
  by (simp add: log_extends_def enviar_metadados_para_bucket_def log_defs Let_def
        split: option.splits sum.splits)

lemma enviar_meta_logs:
  "\<not> fst (enviar_metadados_para_bucket env i c st0) \<Longrightarrow>
   logs_record
     (ERROR, ''handlers.py'', if create_client env = None \<and> \<not> path_exists env c then 298 else 317)
     st (snd (enviar_metadados_para_bucket env i c st))"
  by (auto simp add: logs_record_def enviar_metadados_para_bucket_def log_defs Let_def
        split: option.splits sum.splits)

lemma webhook_extends: "log_extends st (snd (enviar_webhook env i s u m st))"
  by (simp add: log_extends_def enviar_webhook_def webhook_lookup_log_def log_defs Let_def
        split: option.splits sum.splits)

lemma limpar_extends: "log_extends st (snd (limpar_arquivos_temporarios env i st))"
  by (simp add: log_extends_def limpar_arquivos_temporarios_def log_defs Let_def
        split: option.splits sum.splits)

lemmas log_extensions = atualizar_extends baixar_extends processar_extends aguardar_extends
  resultados_extends metadados_extends enviar_orto_extends enviar_meta_extends webhook_extends
  limpar_extends logger_extends log_extends_refl


lemma logs_record_run:
  "logs_record r st (snd (processar_projeto env i reg dados st)) \<Longrightarrow>
   r \<in> set (run_log env i reg dados st)"
  by (simp add: logs_record_def run_log_def)

lemma nonfatal_failures_are_logged:
  assumes B: "fst (baixar_imagens_projeto env i st) = Inr (d, n)" and n0: "n \<noteq> 0"
    and P: "fst (processar_imagens_webodm env d i st) = (Some t, True)"
    and A: "fst (aguardar_processamento env t st) = (status, True)"
    and R: "fst (baixar_resultados env t i st) = (Some c, True)" and c: "c \<noteq> []"
    and E: "fst (enviar_ortomosaico_para_bucket env i c st) = (Some u, True)" and u: "u \<noteq> []"
    and S: "fst (atualizar_registro_requisicao env reg None (Some ''Sucesso'') (Some u) st)"
  shows "\<not> fst (atualizar_registro_requisicao env reg (Some (uuid t)) None None st) \<Longrightarrow>
           (ERROR, ''handlers.py'', 152) \<in> set (run_log env i reg dados st)"
    and "fst (gerar_metadados env i d c t (ortomosaico_preset st) n dados st) = None \<Longrightarrow>
           (ERROR, ''handlers.py'', 572) \<in> set (run_log env i reg dados st) \<and>
           (WARNING, ''main.py'', 154) \<in> set (run_log env i reg dados st)"
    and "fst (gerar_metadados env i d c t (ortomosaico_preset st) n dados st) = Some cm \<Longrightarrow>
         cm \<noteq> [] \<Longrightarrow> \<not> fst (enviar_metadados_para_bucket env i cm st) \<Longrightarrow>
           (ERROR, ''handlers.py'',
            if create_client env = None \<and> \<not> path_exists env cm then 298 else 317)
             \<in> set (run_log env i reg dados st)"
proof -
  define s1 where "s1 = snd (baixar_imagens_projeto env i st)"
  define s2 where "s2 = snd (processar_imagens_webodm env d i s1)"
  define s3 where "s3 = snd (atualizar_registro_requisicao env reg (Some (uuid t)) None None s2)"
  define s4 where "s4 = snd (aguardar_processamento env t s3)"
  define s5 where "s5 = snd (baixar_resultados env t i s4)"
  define g where "g = gerar_metadados env i d c t (ortomosaico_preset s5) n dados s5"
  define s6 where "s6 = (if truthy (fst g) then snd g else logger WARNING ''main.py'' 154 (snd g))"
  define s7 where "s7 = snd (enviar_ortomosaico_para_bucket env i c s6)"
  define s8 where "s8 = (if truthy (fst g) then
                           (case fst g of None \<Rightarrow> s7
                            | Some caminho \<Rightarrow> snd (enviar_metadados_para_bucket env i caminho s7))
                         else s7)"
  define s9 where "s9 = snd (atualizar_registro_requisicao env reg None (Some ''Sucesso'')
                               (Some u) s8)"
  define s10 where "s10 = snd (enviar_webhook env i ''sucesso'' (Some u) None s9)"
  define s11 where "s11 = snd (limpar_arquivos_temporarios env i s10)"
  have fin: "snd (processar_projeto env i reg dados st) = s11"
    using B n0 P A R c E u S
    by (simp add: processar_projeto_def case_prod_beta Let_def rets
          s1_def s2_def s3_def s4_def s5_def g_def s6_def s7_def s8_def s9_def s10_def s11_def
          split: option.splits)
  have e01: "log_extends st s1" and e12: "log_extends s1 s2" and e23: "log_extends s2 s3"
    and e34: "log_extends s3 s4" and e45: "log_extends s4 s5"
    and e5g: "log_extends s5 (snd g)" and e67: "log_extends s6 s7"
    and e89: "log_extends s8 s9" and e910: "log_extends s9 s10" and e1011: "log_extends s10 s11"
    by (simp_all add: s1_def s2_def s3_def s4_def s5_def g_def s7_def s9_def s10_def s11_def
          log_extensions)
  have eg6: "log_extends (snd g) s6"
    by (simp add: s6_def log_extensions)
  have e78: "log_extends s7 s8"
    by (simp add: s8_def log_extensions split: option.splits)
  note tr = log_extends_trans
  have e02: "log_extends st s2" using e01 e12 by (rule tr)
  have e05: "log_extends st s5" using e02 e23 e34 e45 by (blast intro: tr)
  have e07: "log_extends st s7" using e05 e5g eg6 e67 by (blast intro: tr)
  have e811: "log_extends s8 s11" using e89 e910 e1011 by (blast intro: tr)
  have e311: "log_extends s3 s11"
    using e34 e45 e5g eg6 e67 e78 e811 by (blast intro: tr)
  have e611: "log_extends s6 s11" using e67 e78 e811 by (blast intro: tr)
  have eg11: "log_extends (snd g) s11" using eg6 e611 by (rule tr)
  {
    assume "\<not> fst (atualizar_registro_requisicao env reg (Some (uuid t)) None None st)"
    then have "logs_record (ERROR, ''handlers.py'', 152) s2 s3"
      unfolding s3_def by (rule atualizar_logs) (simp add: update_data_def)
    then have "logs_record (ERROR, ''handlers.py'', 152) st s11"
      using e02 e311 by (blast intro: logs_record_then logs_record_after)
    then show "(ERROR, ''handlers.py'', 152) \<in> set (run_log env i reg dados st)"
      by (simp add: logs_record_run fin)
  }
  {
    assume G: "fst (gerar_metadados env i d c t (ortomosaico_preset st) n dados st) = None"
    then have "logs_record (ERROR, ''handlers.py'', 572) s5 (snd g)"
      unfolding g_def by (rule metadados_logs)
    then have a: "logs_record (ERROR, ''handlers.py'', 572) st s11"
      using e05 eg11 by (blast intro: logs_record_then logs_record_after)
    from G have "fst g = None"
      by (simp add: g_def rets)
    then have "logs_record (WARNING, ''main.py'', 154) (snd g) s6"
      by (simp add: s6_def logger_logs)
    then have b: "logs_record (WARNING, ''main.py'', 154) st s11"
      using e05 e5g e611 by (blast intro: tr logs_record_then logs_record_after)
    from a b show "(ERROR, ''handlers.py'', 572) \<in> set (run_log env i reg dados st) \<and>
           (WARNING, ''main.py'', 154) \<in> set (run_log env i reg dados st)"
      by (simp add: logs_record_run fin)
  }
  {
    assume G: "fst (gerar_metadados env i d c t (ortomosaico_preset st) n dados st) = Some cm"
      and cm: "cm \<noteq> []" and M: "\<not> fst (enviar_metadados_para_bucket env i cm st)"
    from G have "fst g = Some cm"
      by (simp add: g_def rets)
    with cm have s8: "s8 = snd (enviar_metadados_para_bucket env i cm s7)"
      by (simp add: s8_def)
    from M have "logs_record
        (ERROR, ''handlers.py'',
         if create_client env = None \<and> \<not> path_exists env cm then 298 else 317) s7 s8"
      unfolding s8 by (rule enviar_meta_logs)
    then have "logs_record
        (ERROR, ''handlers.py'',
         if create_client env = None \<and> \<not> path_exists env cm then 298 else 317) st s11"
      using e07 e811 by (blast intro: logs_record_then logs_record_after)
    then show "(ERROR, ''handlers.py'',
            if create_client env = None \<and> \<not> path_exists env cm then 298 else 317)
             \<in> set (run_log env i reg dados st)"
      by (simp add: logs_record_run fin)
  }
qed


text \<open>
  Claim C6. A run returns \<open>True\<close> exactly when the six stages that can abort it
  succeed: images were downloaded, the task was created, the wait ended with
  \<open>COMPLETED\<close>, the mosaic was retrieved, the mosaic was uploaded, the final ledger
  update returned \<open>True\<close>. What the update storing the task id, the metadata rendering
  and the metadata upload return has no part in it; a run that returns \<open>True\<close> has
  uploaded the mosaic, committed \<open>Sucesso\<close> and sent the success notification; and in
  such a run each of the three failures is logged: the failed update of the task id
  as an error at \<^verbatim>\<open>handlers.py\<close> line 152, the failed metadata rendering as an error at
  line 572 and a warning at \<^verbatim>\<open>main.py\<close> line 154, the failed metadata upload as an
  error at line 298 (file missing) or 317.
\<close>

theorem fatal_and_nonfatal_failures:
  "(fst (processar_projeto env i reg dados st) \<longleftrightarrow>
      (\<exists>d n t status c u.
          fst (baixar_imagens_projeto env i st) = Inr (d, n) \<and> n \<noteq> 0 \<and>
          fst (processar_imagens_webodm env d i st) = (Some t, True) \<and>
          fst (aguardar_processamento env t st) = (status, True) \<and>
          fst (baixar_resultados env t i st) = (Some c, True) \<and> c \<noteq> [] \<and>
          fst (enviar_ortomosaico_para_bucket env i c st) = (Some u, True) \<and> u \<noteq> [] \<and>
          fst (atualizar_registro_requisicao env reg None (Some ''Sucesso'') (Some u) st))) \<and>
   (fst (processar_projeto env i reg dados st) \<longrightarrow>
      (\<exists>c u. Enviar_ortomosaico_para_bucket i c \<in> set (run_events env i reg dados st) \<and>
             Atualizar_registro_requisicao reg None (Some ''Sucesso'') (Some u) True
               \<in> set (run_events env i reg dados st) \<and>
             Enviar_webhook i ''sucesso'' (Some u) None \<in> set (run_events env i reg dados st))) \<and>
   (\<forall>d n t status c u.
      fst (baixar_imagens_projeto env i st) = Inr (d, n) \<and> n \<noteq> 0 \<and>
      fst (processar_imagens_webodm env d i st) = (Some t, True) \<and>
      fst (aguardar_processamento env t st) = (status, True) \<and>
      fst (baixar_resultados env t i st) = (Some c, True) \<and> c \<noteq> [] \<and>
      fst (enviar_ortomosaico_para_bucket env i c st) = (Some u, True) \<and> u \<noteq> [] \<and>
      fst (atualizar_registro_requisicao env reg None (Some ''Sucesso'') (Some u) st) \<longrightarrow>
        (\<not> fst (atualizar_registro_requisicao env reg (Some (uuid t)) None None st) \<longrightarrow>
           (ERROR, ''handlers.py'', 152) \<in> set (run_log env i reg dados st)) \<and>
        (fst (gerar_metadados env i d c t (ortomosaico_preset st) n dados st) = None \<longrightarrow>
           (ERROR, ''handlers.py'', 572) \<in> set (run_log env i reg dados st) \<and>
           (WARNING, ''main.py'', 154) \<in> set (run_log env i reg dados st)) \<and>
        (\<forall>cm. fst (gerar_metadados env i d c t (ortomosaico_preset st) n dados st) = Some cm \<and>
              cm \<noteq> [] \<and> \<not> fst (enviar_metadados_para_bucket env i cm st) \<longrightarrow>
           (ERROR, ''handlers.py'',
            if create_client env = None \<and> \<not> path_exists env cm then 298 else 317)
             \<in> set (run_log env i reg dados st)))"
proof (intro conjI)
  show "fst (processar_projeto env i reg dados st) \<longleftrightarrow>
      (\<exists>d n t status c u.
          fst (baixar_imagens_projeto env i st) = Inr (d, n) \<and> n \<noteq> 0 \<and>
          fst (processar_imagens_webodm env d i st) = (Some t, True) \<and>
          fst (aguardar_processamento env t st) = (status, True) \<and>
          fst (baixar_resultados env t i st) = (Some c, True) \<and> c \<noteq> [] \<and>
          fst (enviar_ortomosaico_para_bucket env i c st) = (Some u, True) \<and> u \<noteq> [] \<and>
          fst (atualizar_registro_requisicao env reg None (Some ''Sucesso'') (Some u) st))"
    using run_has_shape[of env i reg st dados]
    by cases auto
  show "fst (processar_projeto env i reg dados st) \<longrightarrow>
      (\<exists>c u. Enviar_ortomosaico_para_bucket i c \<in> set (run_events env i reg dados st) \<and>
             Atualizar_registro_requisicao reg None (Some ''Sucesso'') (Some u) True
               \<in> set (run_events env i reg dados st) \<and>
             Enviar_webhook i ''sucesso'' (Some u) None \<in> set (run_events env i reg dados st))"
    using run_has_shape[of env i reg st dados]
    by cases auto
  show "\<forall>d n t status c u.
      fst (baixar_imagens_projeto env i st) = Inr (d, n) \<and> n \<noteq> 0 \<and>
      fst (processar_imagens_webodm env d i st) = (Some t, True) \<and>
      fst (aguardar_processamento env t st) = (status, True) \<and>
      fst (baixar_resultados env t i st) = (Some c, True) \<and> c \<noteq> [] \<and>
      fst (enviar_ortomosaico_para_bucket env i c st) = (Some u, True) \<and> u \<noteq> [] \<and>
      fst (atualizar_registro_requisicao env reg None (Some ''Sucesso'') (Some u) st) \<longrightarrow>
        (\<not> fst (atualizar_registro_requisicao env reg (Some (uuid t)) None None st) \<longrightarrow>
           (ERROR, ''handlers.py'', 152) \<in> set (run_log env i reg dados st)) \<and>
        (fst (gerar_metadados env i d c t (ortomosaico_preset st) n dados st) = None \<longrightarrow>
           (ERROR, ''handlers.py'', 572) \<in> set (run_log env i reg dados st) \<and>
           (WARNING, ''main.py'', 154) \<in> set (run_log env i reg dados st)) \<and>
        (\<forall>cm. fst (gerar_metadados env i d c t (ortomosaico_preset st) n dados st) = Some cm \<and>
              cm \<noteq> [] \<and> \<not> fst (enviar_metadados_para_bucket env i cm st) \<longrightarrow>
           (ERROR, ''handlers.py'',
            if create_client env = None \<and> \<not> path_exists env cm then 298 else 317)
             \<in> set (run_log env i reg dados st))"
  proof (intro allI impI, elim conjE)
    fix d n t status c u
    assume h: "fst (baixar_imagens_projeto env i st) = Inr (d, n)" "n \<noteq> 0"
      "fst (processar_imagens_webodm env d i st) = (Some t, True)"
      "fst (aguardar_processamento env t st) = (status, True)"
      "fst (baixar_resultados env t i st) = (Some c, True)" "c \<noteq> []"
      "fst (enviar_ortomosaico_para_bucket env i c st) = (Some u, True)" "u \<noteq> []"
      "fst (atualizar_registro_requisicao env reg None (Some ''Sucesso'') (Some u) st)"
    note L = nonfatal_failures_are_logged[OF h, of dados]
    show "(\<not> fst (atualizar_registro_requisicao env reg (Some (uuid t)) None None st) \<longrightarrow>
           (ERROR, ''handlers.py'', 152) \<in> set (run_log env i reg dados st)) \<and>
        (fst (gerar_metadados env i d c t (ortomosaico_preset st) n dados st) = None \<longrightarrow>
           (ERROR, ''handlers.py'', 572) \<in> set (run_log env i reg dados st) \<and>
           (WARNING, ''main.py'', 154) \<in> set (run_log env i reg dados st)) \<and>
        (\<forall>cm. fst (gerar_metadados env i d c t (ortomosaico_preset st) n dados st) = Some cm \<and>
              cm \<noteq> [] \<and> \<not> fst (enviar_metadados_para_bucket env i cm st) \<longrightarrow>
           (ERROR, ''handlers.py'',
            if create_client env = None \<and> \<not> path_exists env cm then 298 else 317)
             \<in> set (run_log env i reg dados st))"
      using L by blast
  qed
qed

theorem fatal_and_nonfatal_failures_witness:
  "\<not> fst (atualizar_registro_requisicao env_nonfatal ''rec-1'' (Some ''uuid-1'') None None
            st_init) \<and>
   \<not> fst (enviar_metadados_para_bucket env_nonfatal ''P1''
            ''/app/temp/P1/resultados/metadados.txt'' st_init) \<and>
   fst (processar_projeto env_nonfatal ''P1'' ''rec-1'' [] st_init) \<and>
   (\<exists>c u. Enviar_ortomosaico_para_bucket ''P1'' c
             \<in> set (run_events env_nonfatal ''P1'' ''rec-1'' [] st_init) \<and>
          Atualizar_registro_requisicao ''rec-1'' None (Some ''Sucesso'') (Some u) True
             \<in> set (run_events env_nonfatal ''P1'' ''rec-1'' [] st_init) \<and>
          Enviar_webhook ''P1'' ''sucesso'' (Some u) None
             \<in> set (run_events env_nonfatal ''P1'' ''rec-1'' [] st_init)) \<and>
   (ERROR, ''handlers.py'', 152) \<in> set (run_log env_nonfatal ''P1'' ''rec-1'' [] st_init) \<and>
   (ERROR, ''handlers.py'', 317) \<in> set (run_log env_nonfatal ''P1'' ''rec-1'' [] st_init)"
proof -
  note ev = handler_defs env_nonfatal_def env_ok_def st_init_def preset_padrao_def Let_def
  have b: "\<not> fst (atualizar_registro_requisicao env_nonfatal ''rec-1'' (Some ''uuid-1'') None
                   None st_init)"
    by (simp add: atualizar_result env_nonfatal_def env_ok_def update_data_def)
  have h1: "fst (baixar_imagens_projeto env_nonfatal ''P1'' st_init) = Inr (''/app/temp/P1'', 2)"
    by (simp add: ev)
  have h2: "fst (processar_imagens_webodm env_nonfatal ''/app/temp/P1'' ''P1'' st_init) =
              (Some (Task ''uuid-1''), True)"
    by (simp add: ev)
  have h3: "fst (aguardar_processamento env_nonfatal (Task ''uuid-1'') st_init) =
              (''COMPLETED'', True)"
    by (simp add: ev)
  have h4: "fst (baixar_resultados env_nonfatal (Task ''uuid-1'') ''P1'' st_init) =
              (Some ''/app/temp/P1/resultados/odm_orthophoto.tif'', True)"
    by (simp add: ev)
  have h5: "fst (enviar_ortomosaico_para_bucket env_nonfatal ''P1''
                   ''/app/temp/P1/resultados/odm_orthophoto.tif'' st_init) =
              (Some ''https://store.example/Ortomosaicos/P1/odm_ortophoto.tif'', True)"
    by (simp add: ev)
  have h6: "fst (atualizar_registro_requisicao env_nonfatal ''rec-1'' None (Some ''Sucesso'')
                   (Some ''https://store.example/Ortomosaicos/P1/odm_ortophoto.tif'') st_init)"
    by (simp add: ev)
  have h7: "fst (gerar_metadados env_nonfatal ''P1'' ''/app/temp/P1''
                   ''/app/temp/P1/resultados/odm_orthophoto.tif'' (Task ''uuid-1'')
                   (ortomosaico_preset st_init) 2 [] st_init) =
              Some ''/app/temp/P1/resultados/metadados.txt''"
    by (simp add: ev)
  have p: "create_client env_nonfatal = None \<and>
           path_exists env_nonfatal ''/app/temp/P1/resultados/metadados.txt''"
    by (simp add: env_nonfatal_def env_ok_def)
  note T = fatal_and_nonfatal_failures[of env_nonfatal "''P1''" "''rec-1''" "[]" st_init]
  have a: "fst (processar_projeto env_nonfatal ''P1'' ''rec-1'' [] st_init)"
    using h1 h2 h3 h4 h5 h6 T[THEN conjunct1] by simp
  have l: "(ERROR, ''handlers.py'', 152)
              \<in> set (run_log env_nonfatal ''P1'' ''rec-1'' [] st_init) \<and>
           (ERROR, ''handlers.py'', 317)
              \<in> set (run_log env_nonfatal ''P1'' ''rec-1'' [] st_init)"
    using h1 h2 h3 h4 h5 h6 h7 p b metadata_upload_fails_in_env_nonfatal[of st_init]
      T[THEN conjunct2, THEN conjunct2, rule_format, of "''/app/temp/P1''" 2 "Task ''uuid-1''"
          "''COMPLETED''" "''/app/temp/P1/resultados/odm_orthophoto.tif''"
          "''https://store.example/Ortomosaicos/P1/odm_ortophoto.tif''"]
    by simp
  from a b l metadata_upload_fails_in_env_nonfatal[of st_init] T
  show ?thesis by blast
qed

subsection \<open>The ledger update\<close>

text \<open>
  Claim C8. A ledger update applies exactly the fields supplied with a value: the
  dictionary sent to the store has the supplied columns and no other, and when the
  update succeeds the targeted row gets the supplied values and keeps every other
  column; the other rows are not touched.
\<close>

theorem update_applies_exactly_the_supplied_fields:
  "map_of (update_data id_wl status_orto url) = supplied id_wl status_orto url \<and>
   (fst (atualizar_registro_requisicao env i id_wl status_orto url st) \<longrightarrow>
      db_log (snd (atualizar_registro_requisicao env i id_wl status_orto url st)) =
        db_log st @ [(i, update_data id_wl status_orto url)] \<and>
      (\<forall>j. j \<noteq> i \<longrightarrow>
         requisicoes (snd (atualizar_registro_requisicao env i id_wl status_orto url st)) j =
           requisicoes st j) \<and>
      requisicoes (snd (atualizar_registro_requisicao env i id_wl status_orto url st)) i =
        (case requisicoes st i of
           None \<Rightarrow> None
         | Some row \<Rightarrow>
             Some (\<lambda>col. case supplied id_wl status_orto url col of
                           Some v \<Rightarrow> Some v
                         | None \<Rightarrow> row col)))"
  by (auto simp add: update_data_supplied atualizar_requisicoes atualizar_db_log atualizar_result
        apply_update_def map_add_def fun_eq_iff split: option.splits)

theorem update_applies_exactly_the_supplied_fields_witness:
  "fst (atualizar_registro_requisicao env_ok ''rec-1'' None (Some ''Sucesso'') (Some ''u'')
          st_init) \<and>
   requisicoes (snd (atualizar_registro_requisicao env_ok ''rec-1'' None (Some ''Sucesso'')
                       (Some ''u'') st_init)) ''rec-1'' =
     Some [''id_projeto'' \<mapsto> ''P1'', ''status_orto'' \<mapsto> ''Sucesso'',
           ''url_ortomosaico'' \<mapsto> ''u'']"
proof -
  have ok: "fst (atualizar_registro_requisicao env_ok ''rec-1'' None (Some ''Sucesso'')
                   (Some ''u'') st_init)"
    by (simp add: atualizar_result env_ok_def update_data_def)
  have row: "requisicoes st_init ''rec-1'' =
               Some [''id_projeto'' \<mapsto> ''P1'', ''status_orto'' \<mapsto> ''Processando'']"
    by (simp add: st_init_def)
  from ok update_applies_exactly_the_supplied_fields
         [of None "Some ''Sucesso''" "Some ''u''" env_ok "''rec-1''" st_init]
  have "requisicoes (snd (atualizar_registro_requisicao env_ok ''rec-1'' None (Some ''Sucesso'')
                       (Some ''u'') st_init)) ''rec-1'' =
        Some (\<lambda>col. case supplied None (Some ''Sucesso'') (Some ''u'') col of
                      Some v \<Rightarrow> Some v
                    | None \<Rightarrow> [''id_projeto'' \<mapsto> ''P1'', ''status_orto'' \<mapsto> ''Processando''] col)"
    by (simp add: row)
  then show ?thesis using ok
    by (auto simp add: supplied_def fun_eq_iff)
qed

text \<open>
  Claim C10. \<open>atualizar_registro_requisicao\<close> returns \<open>True\<close> whenever at least one
  field is supplied and neither the client creation nor the store call raises, whether
  or not a row has the given id: with no such row it reports success and changes no
  row. With every field absent it returns \<open>False\<close> and sends nothing to the store.
\<close>

theorem update_reports_success_without_match:
  "(create_client env = None \<and> table_update env i (update_data id_wl status_orto url) = None \<and>
    (id_wl \<noteq> None \<or> status_orto \<noteq> None \<or> url \<noteq> None) \<longrightarrow>
      fst (atualizar_registro_requisicao env i id_wl status_orto url st) \<and>
      (requisicoes st i = None \<longrightarrow>
         requisicoes (snd (atualizar_registro_requisicao env i id_wl status_orto url st)) =
           requisicoes st)) \<and>
   \<not> fst (atualizar_registro_requisicao env i None None None st) \<and>
   db_log (snd (atualizar_registro_requisicao env i None None None st)) = db_log st \<and>
   requisicoes (snd (atualizar_registro_requisicao env i None None None st)) = requisicoes st"
  by (auto simp add: atualizar_requisicoes atualizar_db_log atualizar_result update_data_empty
        apply_update_def)

theorem update_reports_success_without_match_witness:
  "requisicoes st_init ''no-such-id'' = None \<and>
   fst (atualizar_registro_requisicao env_ok ''no-such-id'' None (Some ''Sucesso'') None
          st_init) \<and>
   requisicoes (snd (atualizar_registro_requisicao env_ok ''no-such-id'' None (Some ''Sucesso'')
                       None st_init)) = requisicoes st_init"
proof -
  have a: "create_client env_ok = None \<and>
           table_update env_ok ''no-such-id'' (update_data None (Some ''Sucesso'') None) = None \<and>
           (None \<noteq> (None :: string option) \<or> Some ''Sucesso'' \<noteq> None \<or>
            None \<noteq> (None :: string option))"
    by (simp add: env_ok_def)
  have b: "requisicoes st_init ''no-such-id'' = None"
    by (simp add: st_init_def)
  from a b update_reports_success_without_match
             [of env_ok "''no-such-id''" None "Some ''Sucesso''" None st_init]
  show ?thesis by blast
qed

end
